theory Spec2Isabelle
  imports Main
begin

section \<open>Python values and their string forms\<close>

text \<open>
  A Python \<open>str\<close> is modelled as a \<open>string\<close>: the list of its code points, every
  code point below 256 (one \<open>char\<close> each), so \<open>length\<close> is Python's \<open>len\<close>.
\<close>

definition squote :: char where
  "squote = CHR 0x27"

definition dquote :: char where
  "dquote = CHR 0x22"

definition backslash :: char where
  "backslash = CHR 0x5C"

definition lower_char :: "char \<Rightarrow> char" where
  \<comment> \<open>\<open>str.lower\<close> on one code point below 256: A-Z and the upper-case letters
      of Latin-1 (0xC0-0xDE without the multiplication sign 0xD7) move up by 32.\<close>
  "lower_char c =
     (let n = (of_char c :: nat)
      in if (65 \<le> n \<and> n \<le> 90) \<or> (192 \<le> n \<and> n \<le> 222 \<and> n \<noteq> 215)
         then char_of (n + 32) else c)"

definition lower :: "string \<Rightarrow> string" where
  "lower s = map lower_char s"

definition startswith :: "string \<Rightarrow> string \<Rightarrow> bool" where
  "startswith s p = (take (length p) s = p)"

fun join :: "string \<Rightarrow> string list \<Rightarrow> string" where
  \<comment> \<open>\<open>sep.join(xs)\<close>\<close>
  "join sep [] = []"
| "join sep [x] = x"
| "join sep (x # y # ys) = x @ sep @ join sep (y # ys)"

definition digit_char :: "nat \<Rightarrow> char" where
  "digit_char d = char_of (48 + d)"

fun show_nat :: "nat \<Rightarrow> string" where
  "show_nat n = (if n < 10 then [digit_char n] else show_nat (n div 10) @ [digit_char (n mod 10)])"

declare show_nat.simps [simp del]

definition show_int :: "int \<Rightarrow> string" where
  \<comment> \<open>\<open>str\<close> of a Python \<open>int\<close>\<close>
  "show_int i = (if i < 0 then CHR ''-'' # show_nat (nat (- i)) else show_nat (nat i))"

definition hex_char :: "nat \<Rightarrow> char" where
  "hex_char d = (if d < 10 then char_of (48 + d) else char_of (87 + d))"

definition printable :: "char \<Rightarrow> bool" where
  \<comment> \<open>\<open>str.isprintable\<close> on one code point below 256\<close>
  "printable c =
     (let n = (of_char c :: nat)
      in (32 \<le> n \<and> n \<le> 126) \<or> (161 \<le> n \<and> n \<noteq> 173))"

definition esc_char :: "char \<Rightarrow> char \<Rightarrow> string" where
  \<comment> \<open>one character of \<open>repr\<close> of a \<open>str\<close> quoted with \<open>q\<close>\<close>
  "esc_char q c =
     (if c = q \<or> c = backslash then [backslash, c]
      else if c = CHR 0x09 then [backslash, CHR ''t'']
      else if c = CHR 0x0A then [backslash, CHR ''n'']
      else if c = CHR 0x0D then [backslash, CHR ''r'']
      else if printable c then [c]
      else [backslash, CHR ''x'', hex_char ((of_char c :: nat) div 16),
            hex_char ((of_char c :: nat) mod 16)])"

definition repr_str :: "string \<Rightarrow> string" where
  \<comment> \<open>\<open>repr\<close> of a \<open>str\<close>: single quotes, unless the text has a single quote
      and no double quote\<close>
  "repr_str s =
     (let q = (if squote \<in> set s \<and> dquote \<notin> set s then dquote else squote)
      in q # concat (map (esc_char q) s) @ [q])"

text \<open>
  A JSON value as Python's \<open>json\<close> module reads it. An object keeps the order of
  its keys, as a \<open>dict\<close> does, so it is an association list; a \<open>dict\<close> holds each key
  once (\<open>wf_json\<close>). A \<open>float\<close> is held as its \<open>repr\<close> text, which names the
  float uniquely (\<open>0.0\<close> and \<open>-0.0\<close> are the two zeros).
\<close>

datatype json =
    JNull
  | JBool bool
  | JInt int
  | JFloat string
  | JStr string
  | JArr "json list"
  | JObj "(string \<times> json) list"

fun wf_json :: "json \<Rightarrow> bool" where
  "wf_json (JArr xs) = (\<forall>x \<in> set xs. wf_json x)"
| "wf_json (JObj kvs) = (distinct (map fst kvs) \<and> (\<forall>kv \<in> set kvs. wf_json (snd kv)))"
| "wf_json _ = True"

fun py_repr :: "json \<Rightarrow> string" where
  "py_repr JNull = ''None''"
| "py_repr (JBool b) = (if b then ''True'' else ''False'')"
| "py_repr (JInt i) = show_int i"
| "py_repr (JFloat r) = r"
| "py_repr (JStr s) = repr_str s"
| "py_repr (JArr xs) = ''['' @ join '', '' (map py_repr xs) @ '']''"
| "py_repr (JObj kvs) =
     ''{'' @ join '', '' (map (\<lambda>kv. repr_str (fst kv) @ '': '' @ py_repr (snd kv)) kvs) @ ''}''"

definition py_str :: "json \<Rightarrow> string" where
  \<comment> \<open>\<open>str(value)\<close>: a \<open>str\<close> is itself, everything else is its \<open>repr\<close>\<close>
  "py_str v = (case v of JStr s \<Rightarrow> s | _ \<Rightarrow> py_repr v)"

definition truthy :: "json \<Rightarrow> bool" where
  \<comment> \<open>Python's truth value, as \<open>or\<close>, \<open>not\<close> and \<open>if\<close> test it\<close>
  "truthy v =
     (case v of
        JNull \<Rightarrow> False
      | JBool b \<Rightarrow> b
      | JInt i \<Rightarrow> i \<noteq> 0
      | JFloat r \<Rightarrow> r \<noteq> ''0.0'' \<and> r \<noteq> ''-0.0''
      | JStr s \<Rightarrow> s \<noteq> []
      | JArr xs \<Rightarrow> xs \<noteq> []
      | JObj kvs \<Rightarrow> kvs \<noteq> [])"

definition py_or :: "json \<Rightarrow> json \<Rightarrow> json" where
  \<comment> \<open>\<open>a or b\<close>\<close>
  "py_or a b = (if truthy a then a else b)"

definition type_name :: "json \<Rightarrow> string" where
  "type_name v =
     (case v of
        JNull \<Rightarrow> ''NoneType''
      | JBool _ \<Rightarrow> ''bool''
      | JInt _ \<Rightarrow> ''int''
      | JFloat _ \<Rightarrow> ''float''
      | JStr _ \<Rightarrow> ''str''
      | JArr _ \<Rightarrow> ''list''
      | JObj _ \<Rightarrow> ''dict'')"

definition is_dict :: "json \<Rightarrow> bool" where
  \<comment> \<open>\<open>isinstance(v, dict)\<close>\<close>
  "is_dict v = (case v of JObj _ \<Rightarrow> True | _ \<Rightarrow> False)"

definition dict_get :: "(string \<times> json) list \<Rightarrow> string \<Rightarrow> json \<Rightarrow> json" where
  \<comment> \<open>\<open>d.get(key, default)\<close>\<close>
  "dict_get d k dflt = (case map_of d k of None \<Rightarrow> dflt | Some v \<Rightarrow> v)"

definition has_key :: "(string \<times> json) list \<Rightarrow> string \<Rightarrow> bool" where
  \<comment> \<open>\<open>key in d\<close>\<close>
  "has_key d k = (map_of d k \<noteq> None)"

definition py_take :: "int \<Rightarrow> 'a list \<Rightarrow> 'a list" where
  \<comment> \<open>the slice \<open>xs[:k]\<close>: a negative \<open>k\<close> counts from the end\<close>
  "py_take k xs =
     (if k < 0 then take (nat (int (length xs) + k)) xs else take (nat k) xs)"

section \<open>Exceptions\<close>

text \<open>
  The exception classes the client names or can meet, and an exception as its class
  with its \<open>str\<close>. \<open>FMGBaseException\<close> stands for that class and its subclasses
  other than \<open>FMGValidSessionException\<close>; \<open>OtherException\<close> for any further
  subclass of \<open>Exception\<close>; \<open>KeyboardInterrupt\<close> derives from \<open>BaseException\<close>
  only.
\<close>

datatype exn_class =
    FMGConnectionError
  | FMGConnectTimeout
  | FMGValidSessionException
  | FMGBaseException
  | ValueError
  | TypeError
  | AttributeError
  | FileNotFoundError
  | OtherException
  | KeyboardInterrupt

datatype exn = Exn exn_class string

definition no_get :: "json \<Rightarrow> exn" where
  \<comment> \<open>what \<open>item.get\<close> raises on a value that is not a \<open>dict\<close>\<close>
  "no_get v =
     Exn AttributeError
       (squote # type_name v @ squote # '' object has no attribute '' @ squote # ''get'' @ [squote])"

fun collect :: "('a \<Rightarrow> exn + 'b) \<Rightarrow> 'a list \<Rightarrow> exn + 'b list" where
  \<comment> \<open>a list comprehension or \<open>for\<close> loop appending \<open>f x\<close>: the first raise ends it\<close>
  "collect f [] = Inr []"
| "collect f (x # xs) =
     (case f x of
        Inl e \<Rightarrow> Inl e
      | Inr y \<Rightarrow> (case collect f xs of Inl e \<Rightarrow> Inl e | Inr ys \<Rightarrow> Inr (y # ys)))"

section \<open>TableFormatter\<close>

definition item_name :: "json \<Rightarrow> exn + string" where
  \<comment> \<open>\<open>str(item.get('name', ''))\<close>\<close>
  "item_name item =
     (case item of
        JObj d \<Rightarrow> Inr (py_str (dict_get d ''name'' (JStr [])))
      | _ \<Rightarrow> Inl (no_get item))"

definition first_is_named :: "json \<Rightarrow> bool" where
  \<comment> \<open>\<open>isinstance(value[0], dict) and 'name' in value[0]\<close>\<close>
  "first_is_named x = (case x of JObj d \<Rightarrow> has_key d ''name'' | _ \<Rightarrow> False)"

definition flatten_value :: "json \<Rightarrow> exn + string" where
  "flatten_value v =
     (case v of
        JNull \<Rightarrow> Inr ''-''
      | JArr xs \<Rightarrow>
          (case xs of
             [] \<Rightarrow> Inr ''-''
           | x # _ \<Rightarrow>
               if first_is_named x
               then (case collect item_name xs of
                       Inl e \<Rightarrow> Inl e
                     | Inr ns \<Rightarrow> Inr (join '', '' ns))
               else Inr (join '', '' (map py_str xs)))
      | JObj d \<Rightarrow>
          (case map_of d ''name'' of
             Some n \<Rightarrow> Inr (py_str n)
           | None \<Rightarrow>
               (case d of
                  [kv] \<Rightarrow> Inr (py_str (snd kv))
                | _ \<Rightarrow> Inr (py_str v)))
      | _ \<Rightarrow> Inr (py_str v))"

definition data_list_of :: "json \<Rightarrow> json list option" where
  \<comment> \<open>lines 39-50 of \<open>format_table\<close>: the rows, or \<open>None\<close> where the function
      returns its "not supported" message\<close>
  "data_list_of response_data =
     (case response_data of
        JObj d \<Rightarrow>
          (let data_list =
                 py_or (py_or (dict_get d ''results'' JNull) (dict_get d ''data'' JNull))
                       (dict_get d ''items'' JNull)
           in case data_list of
                JArr xs \<Rightarrow> Some xs
              | JObj _ \<Rightarrow> Some [data_list]
              | _ \<Rightarrow> Some [response_data])
      | JArr xs \<Rightarrow> Some xs
      | _ \<Rightarrow> None)"

fun bump :: "string \<Rightarrow> (string \<times> int) list \<Rightarrow> (string \<times> int) list" where
  \<comment> \<open>\<open>field_counts[key] = field_counts.get(key, 0) + 1\<close> on a \<open>dict\<close> in insertion
      order: a known key keeps its place, a new key goes last\<close>
  "bump k [] = [(k, 1)]"
| "bump k (kc # rest) =
     (if fst kc = k then (k, snd kc + 1) # rest else kc # bump k rest)"

definition count_item :: "json \<Rightarrow> (string \<times> int) list \<Rightarrow> (string \<times> int) list" where
  "count_item item fc = (case item of JObj d \<Rightarrow> fold bump (map fst d) fc | _ \<Rightarrow> fc)"

definition field_counts :: "json list \<Rightarrow> (string \<times> int) list" where
  \<comment> \<open>lines 56-60: the keys of the first ten rows with their counts\<close>
  "field_counts data_list = fold count_item (take 10 data_list) []"

definition sorted_by_count_desc :: "(string \<times> int) list \<Rightarrow> (string \<times> int) list" where
  \<comment> \<open>\<open>sorted(items, key=lambda x: x[1], reverse=True)\<close>: Python's sort is stable, also
      with \<open>reverse=True\<close>, so it is the stable sort by the negated count\<close>
  "sorted_by_count_desc kcs = sort_key (\<lambda>kc. - snd kc) kcs"

definition detect_fields :: "int \<Rightarrow> json list \<Rightarrow> string list" where
  \<comment> \<open>lines 61-62\<close>
  "detect_fields max_fields data_list =
     map fst (py_take max_fields (sorted_by_count_desc (field_counts data_list)))"

definition truncate_cell :: "int \<Rightarrow> string \<Rightarrow> string" where
  \<comment> \<open>lines 74-75\<close>
  "truncate_cell max_width s =
     (if max_width \<noteq> 0 \<and> int (length s) > max_width
      then py_take (max_width - 3) s @ ''...''
      else s)"

definition table_cell :: "int \<Rightarrow> json \<Rightarrow> string \<Rightarrow> exn + string" where
  \<comment> \<open>lines 72-75: one cell of a row\<close>
  "table_cell max_width item field =
     (case item of
        JObj d \<Rightarrow>
          (case flatten_value (dict_get d field (JStr ''-'')) of
             Inl e \<Rightarrow> Inl e
           | Inr s \<Rightarrow> Inr (truncate_cell max_width s))
      | _ \<Rightarrow> Inl (no_get item))"

definition table_rows :: "string list \<Rightarrow> int \<Rightarrow> json list \<Rightarrow> exn + string list list" where
  \<comment> \<open>lines 68-77\<close>
  "table_rows fields max_width data_list =
     collect (\<lambda>item. collect (table_cell max_width item) fields) data_list"

definition format_table ::
  "(string list \<Rightarrow> string list list \<Rightarrow> string) \<Rightarrow> json \<Rightarrow> int \<Rightarrow> int \<Rightarrow> exn + string" where
  \<comment> \<open>\<open>tab headers rows\<close> is \<open>tabulate(rows, headers=headers, tablefmt="grid",
      stralign="left")\<close> of the tabulate package\<close>
  "format_table tab response_data max_fields max_width =
     (case data_list_of response_data of
        None \<Rightarrow>
          Inr (''Table format not supported for response type: <class '' @
               squote # type_name response_data @ squote # ''>'')
      | Some data_list \<Rightarrow>
          if data_list = [] then Inr ''No data to display in table format''
          else
            (let fields = detect_fields max_fields data_list
             in if fields = [] then Inr ''No suitable fields found for table display''
                else
                  (case table_rows fields max_width data_list of
                     Inl e \<Rightarrow> Inl e
                   | Inr rows \<Rightarrow>
                       Inr (show_nat (length data_list) @ '' result(s) found'' @
                            CHR 0x0A # tab fields rows))))"

definition cli_max_fields :: "int \<Rightarrow> int" where
  \<comment> \<open>line 307 of \<open>main\<close>: \<open>args.table_max_fields if args.table_max_fields != 0 else 999\<close>\<close>
  "cli_max_fields n = (if n \<noteq> 0 then n else 999)"

definition main_table ::
  "(string list \<Rightarrow> string list list \<Rightarrow> string) \<Rightarrow> json \<Rightarrow> int \<Rightarrow> int \<Rightarrow> exn + string" where
  \<comment> \<open>lines 305-309 of \<open>main\<close>: the call of \<open>format_table\<close> for \<open>--format table\<close>\<close>
  "main_table tab response table_max_fields table_max_width =
     format_table tab response (cli_max_fields table_max_fields) table_max_width"

section \<open>FortiManagerAPIClient\<close>

definition str_truthy :: "string option \<Rightarrow> bool" where
  \<comment> \<open>truth value of an \<open>Optional[str]\<close>: \<open>None\<close> and the empty text are false\<close>
  "str_truthy s = (case s of None \<Rightarrow> False | Some t \<Rightarrow> t \<noteq> [])"

record client =
  host :: string
  username :: string
  password :: "string option"
  apikey :: "string option"
  use_ssl :: bool
  verify_ssl :: bool
  timeout :: int
  debug :: bool

definition new_client ::
  "string \<Rightarrow> string option \<Rightarrow> string option \<Rightarrow> string option \<Rightarrow> bool \<Rightarrow> bool \<Rightarrow> int \<Rightarrow> bool
   \<Rightarrow> exn + client" where
  \<comment> \<open>\<open>__init__\<close>: \<open>username or "admin"\<close>, and a secret is required\<close>
  "new_client h u p k ssl vfy tmo dbg =
     (if \<not> str_truthy k \<and> \<not> str_truthy p
      then Inl (Exn ValueError ''Either password or apikey must be provided'')
      else Inr \<lparr>host = h,
                username = (case u of None \<Rightarrow> ''admin'' | Some t \<Rightarrow> if t \<noteq> [] then t else ''admin''),
                password = p, apikey = k, use_ssl = ssl, verify_ssl = vfy,
                timeout = tmo, debug = dbg\<rparr>)"

text \<open>
  The pyFMG package is outside the repository. What the client passes to the
  \<open>FortiManager\<close> constructor is \<open>conn_args\<close>; the package and the device behind it
  are a parameter \<open>library\<close>: the constructor raises or gives a connection, whose
  \<open>__enter__\<close> (login) and \<open>__exit__\<close> (logout) may raise and whose request methods
  raise or answer a pair of status and payload. \<open>__exit__\<close> is given the exception
  that is leaving the \<open>with\<close> block, if any, and never swallows it.
\<close>

record conn_args =
  ca_host :: string
  ca_user :: string
  ca_passwd :: "string option"
  ca_apikey :: "string option"
  ca_debug :: bool
  ca_use_ssl :: bool
  ca_verify_ssl :: bool
  ca_timeout :: int

datatype wire = WGet | WAdd | WUpdate | WDelete | WExecute

record conn =
  enter :: "exn option"
  call :: "wire \<Rightarrow> string \<Rightarrow> string list \<Rightarrow> (string \<times> json) list \<Rightarrow> exn + json \<times> json"
  leave :: "exn option \<Rightarrow> exn option"

type_synonym library = "conn_args \<Rightarrow> exn + conn"

datatype event =
    Create conn_args
  | Enter
  | Call wire string "string list" "(string \<times> json) list"
  | Leave

type_synonym outcome = "(exn + json \<times> json) \<times> event list"

definition create_connection_args :: "client \<Rightarrow> conn_args" where
  \<comment> \<open>\<open>_create_connection\<close>: with an API key no password is passed\<close>
  "create_connection_args self =
     (if str_truthy (apikey self)
      then \<lparr>ca_host = host self, ca_user = username self, ca_passwd = None,
            ca_apikey = apikey self, ca_debug = debug self, ca_use_ssl = use_ssl self,
            ca_verify_ssl = verify_ssl self, ca_timeout = timeout self\<rparr>
      else \<lparr>ca_host = host self, ca_user = username self, ca_passwd = password self,
            ca_apikey = None, ca_debug = debug self, ca_use_ssl = use_ssl self,
            ca_verify_ssl = verify_ssl self, ca_timeout = timeout self\<rparr>)"

definition supported :: "string list" where
  "supported = [''get'', ''add'', ''set'', ''update'', ''delete'', ''exec'']"

definition normalize_endpoint :: "string \<Rightarrow> string" where
  \<comment> \<open>lines 134-135\<close>
  "normalize_endpoint endpoint =
     (if \<not> startswith endpoint ''/'' then ''/'' @ endpoint else endpoint)"

definition error_payload :: "string \<Rightarrow> string \<Rightarrow> json" where
  "error_payload label details = JObj [(''error'', JStr label), (''details'', JStr details)]"

definition kwargs_of :: "json option \<Rightarrow> json" where
  \<comment> \<open>\<open>kwargs = data or {}\<close>\<close>
  "kwargs_of data = (case data of None \<Rightarrow> JObj [] | Some d \<Rightarrow> if truthy d then d else JObj [])"

definition args_of :: "string list option \<Rightarrow> string list" where
  \<comment> \<open>\<open>args = query_params or []\<close>\<close>
  "args_of query_params = (case query_params of None \<Rightarrow> [] | Some q \<Rightarrow> q)"

definition wire_name :: "wire \<Rightarrow> string" where
  "wire_name w =
     (case w of WGet \<Rightarrow> ''get'' | WAdd \<Rightarrow> ''add'' | WUpdate \<Rightarrow> ''update''
      | WDelete \<Rightarrow> ''delete'' | WExecute \<Rightarrow> ''execute'')"

definition call_kw ::
  "conn \<Rightarrow> wire \<Rightarrow> string \<Rightarrow> string list \<Rightarrow> json \<Rightarrow> outcome" where
  \<comment> \<open>\<open>fmg.m(endpoint, *args, **kwargs)\<close>: unpacking a value that is no mapping raises
      \<open>TypeError\<close> before the method is entered\<close>
  "call_kw c w endpoint args kwargs =
     (case kwargs of
        JObj d \<Rightarrow> (call c w endpoint args d, [Call w endpoint args d])
      | _ \<Rightarrow>
          (Inl (Exn TypeError
                  (''pyFMG.fortimgr.FortiManager.'' @ wire_name w @
                   ''() argument after ** must be a mapping, not '' @ type_name kwargs)),
           []))"

definition dispatch ::
  "conn \<Rightarrow> string \<Rightarrow> string \<Rightarrow> json option \<Rightarrow> string list option \<Rightarrow> outcome" where
  \<comment> \<open>lines 138-151\<close>
  "dispatch c method endpoint data query_params =
     (let args = args_of query_params; kwargs = kwargs_of data
      in if method = ''get'' then (call c WGet endpoint args [], [Call WGet endpoint args []])
         else if method = ''add'' then call_kw c WAdd endpoint args kwargs
         else if method \<in> set [''set'', ''update''] then call_kw c WUpdate endpoint args kwargs
         else if method = ''delete''
           then (call c WDelete endpoint args [], [Call WDelete endpoint args []])
         else if method = ''exec'' then call_kw c WExecute endpoint args kwargs
         else (Inr (JInt (- 5),
                    JObj [(''error'', JStr ''Unsupported method''),
                          (''details'', JStr (''Method '' @ method @ '' not supported''))]),
               []))"

definition request_attempt ::
  "library \<Rightarrow> client \<Rightarrow> string \<Rightarrow> string \<Rightarrow> json option \<Rightarrow> string list option \<Rightarrow> outcome" where
  \<comment> \<open>the \<open>with\<close> block of lines 137-151: what it returns or raises, and what
      it did with the package\<close>
  "request_attempt lib self method endpoint data query_params =
     (let ca = create_connection_args self
      in case lib ca of
           Inl e \<Rightarrow> (Inl e, [Create ca])
         | Inr c \<Rightarrow>
             (case enter c of
                Some e \<Rightarrow> (Inl e, [Create ca, Enter])
              | None \<Rightarrow>
                  (let body = dispatch c method endpoint data query_params;
                       pending = (case fst body of Inl e \<Rightarrow> Some e | Inr _ \<Rightarrow> None);
                       evs = [Create ca, Enter] @ snd body @ [Leave]
                   in case leave c pending of
                        Some e' \<Rightarrow> (Inl e', evs)
                      | None \<Rightarrow> (fst body, evs))))"

definition is_FMGBaseException :: "exn_class \<Rightarrow> bool" where
  "is_FMGBaseException c = (c = FMGBaseException \<or> c = FMGValidSessionException)"

definition is_Exception :: "exn_class \<Rightarrow> bool" where
  "is_Exception c = (c \<noteq> KeyboardInterrupt)"

definition handle_exception :: "exn \<Rightarrow> exn + json \<times> json" where
  \<comment> \<open>the \<open>except\<close> clauses of lines 152-163, tried in this order; an exception
      none of them matches goes on to the caller\<close>
  "handle_exception e =
     (case e of Exn c details \<Rightarrow>
        if c = FMGConnectionError \<or> c = FMGConnectTimeout
          then Inr (JInt (- 1), error_payload ''Connection failed'' details)
        else if c = FMGValidSessionException
          then Inr (JInt (- 2), error_payload ''Invalid session'' details)
        else if is_FMGBaseException c
          then Inr (JInt (- 3), error_payload ''API error'' details)
        else if is_Exception c
          then Inr (JInt (- 4), error_payload ''Unexpected error'' details)
        else Inl e)"

definition execute_request ::
  "library \<Rightarrow> client \<Rightarrow> string \<Rightarrow> string \<Rightarrow> json option \<Rightarrow> string list option \<Rightarrow> outcome" where
  "execute_request lib self method0 endpoint0 data query_params =
     (let method = lower method0
      in if method \<notin> set supported
         then (Inl (Exn ValueError (''Unsupported HTTP method: '' @ method)), [])
         else
           (let endpoint = normalize_endpoint endpoint0;
                attempt = request_attempt lib self method endpoint data query_params
            in case fst attempt of
                 Inl e \<Rightarrow> (handle_exception e, snd attempt)
               | Inr r \<Rightarrow> (Inr r, snd attempt)))"

section \<open>main\<close>

text \<open>
  The command line is a record \<open>cli\<close> of the values of the options as argparse reads
  them (\<open>None\<close> for an option that is not given). An option with \<open>type=int\<close> is
  absent, a text that \<open>int\<close> accepts (held as its value) or a text that \<open>int\<close>
  rejects. \<open>parse_args\<close> is \<open>parser.parse_args()\<close> with the declarations of lines
  234-255: \<open>-m\<close> and \<open>-e\<close> are required, \<open>-m\<close> and \<open>--format\<close> have choices, and
  argparse ends the process with status 2 (\<open>None\<close> here) when it rejects the line.

  What lies outside the program is a parameter \<open>world\<close>: the outcome of
  \<open>load_config_file\<close> on a path (it reads the file system; lines 168 and 187 raise
  \<open>FileNotFoundError\<close> and \<open>ValueError\<close>), \<open>json.loads\<close> on the \<open>--data\<close> text
  (\<open>Inl\<close> with the text of the \<open>JSONDecodeError\<close> where it raises one) and the pyFMG
  package. The result of \<open>main\<close> is the exit status (0 where \<open>main\<close> returns), or the
  exception that leaves \<open>main\<close>. The printing of lines 302-319 is left out: it raises
  nothing that reaches the exit status (line 311 catches what \<open>format_table\<close> raises).
\<close>

datatype int_arg = Absent | Given int | NotInt string

record cli =
  c_config :: "string option"
  c_host :: "string option"
  c_username :: "string option"
  c_password :: "string option"
  c_apikey :: "string option"
  c_method :: "string option"
  c_endpoint :: "string option"
  c_data :: "string option"
  c_query :: "string list option"
  c_no_ssl :: bool
  c_verify_ssl :: bool
  c_ssl_warnings :: bool
  c_timeout :: int_arg
  c_debug :: bool
  c_format :: "string option"
  c_table_max_width :: int_arg
  c_table_max_fields :: int_arg

record args =
  a_config :: "string option"
  a_host :: "string option"
  a_username :: string
  a_password :: "string option"
  a_apikey :: "string option"
  a_method :: string
  a_endpoint :: string
  a_data :: "string option"
  a_query :: "string list option"
  a_no_ssl :: bool
  a_verify_ssl :: bool
  a_ssl_warnings :: bool
  a_timeout :: int
  a_debug :: bool
  a_format :: string
  a_table_max_width :: int
  a_table_max_fields :: int

record world =
  load_config_file :: "string \<Rightarrow> exn + (string \<times> string) list"
  json_loads :: "string \<Rightarrow> string + json"
  fortimanager :: library

definition method_choices :: "string list" where
  \<comment> \<open>line 241\<close>
  "method_choices = [''get'', ''add'', ''set'', ''update'', ''delete'', ''exec'']"

definition format_choices :: "string list" where
  \<comment> \<open>line 251\<close>
  "format_choices = [''json'', ''pretty'', ''table'']"

definition int_value :: "int \<Rightarrow> int_arg \<Rightarrow> int option" where
  \<comment> \<open>an option with \<open>type=int\<close> and a default: \<open>None\<close> where argparse rejects the text\<close>
  "int_value dflt x = (case x of Absent \<Rightarrow> Some dflt | Given i \<Rightarrow> Some i | NotInt _ \<Rightarrow> None)"

definition parse_args :: "cli \<Rightarrow> args option" where
  "parse_args cl =
     (case c_method cl of
        None \<Rightarrow> None
      | Some m \<Rightarrow>
          if m \<notin> set method_choices then None
          else
            (case c_endpoint cl of
               None \<Rightarrow> None
             | Some e \<Rightarrow>
                 (case int_value 300 (c_timeout cl) of
                    None \<Rightarrow> None
                  | Some tmo \<Rightarrow>
                      (case (case c_format cl of
                               None \<Rightarrow> Some ''json''
                             | Some f \<Rightarrow> if f \<in> set format_choices then Some f else None) of
                         None \<Rightarrow> None
                       | Some fmt \<Rightarrow>
                           (case int_value 50 (c_table_max_width cl) of
                              None \<Rightarrow> None
                            | Some width \<Rightarrow>
                                (case int_value 6 (c_table_max_fields cl) of
                                   None \<Rightarrow> None
                                 | Some nfields \<Rightarrow>
                                     Some \<lparr>a_config = c_config cl, a_host = c_host cl,
                                           a_username =
                                             (case c_username cl of
                                                None \<Rightarrow> ''admin'' | Some u \<Rightarrow> u),
                                           a_password = c_password cl,
                                           a_apikey = c_apikey cl, a_method = m,
                                           a_endpoint = e, a_data = c_data cl,
                                           a_query = c_query cl, a_no_ssl = c_no_ssl cl,
                                           a_verify_ssl = c_verify_ssl cl,
                                           a_ssl_warnings = c_ssl_warnings cl,
                                           a_timeout = tmo, a_debug = c_debug cl,
                                           a_format = fmt, a_table_max_width = width,
                                           a_table_max_fields = nfields\<rparr>))))))"

definition parse_data_argument :: "(string \<Rightarrow> string + json) \<Rightarrow> string \<Rightarrow> exn + json" where
  \<comment> \<open>\<open>loads\<close> is \<open>json.loads\<close>\<close>
  "parse_data_argument loads data_str =
     (case loads data_str of
        Inl e \<Rightarrow> Inl (Exn ValueError (''Invalid JSON data: '' @ e))
      | Inr d \<Rightarrow> Inr d)"

definition str_or :: "string option \<Rightarrow> string option \<Rightarrow> string option" where
  \<comment> \<open>\<open>a or b\<close> on \<open>Optional[str]\<close>\<close>
  "str_or a b = (if str_truthy a then a else b)"

definition host_of :: "args \<Rightarrow> (string \<times> string) list \<Rightarrow> string option" where
  \<comment> \<open>line 268\<close>
  "host_of a config = str_or (str_or (a_host a) (map_of config ''host'')) (map_of config ''ip'')"

definition username_of :: "args \<Rightarrow> (string \<times> string) list \<Rightarrow> string" where
  \<comment> \<open>line 269\<close>
  "username_of a config =
     (if a_username a \<noteq> [] then a_username a
      else (case map_of config ''username'' of None \<Rightarrow> ''admin'' | Some u \<Rightarrow> u))"

definition password_of :: "args \<Rightarrow> (string \<times> string) list \<Rightarrow> string option" where
  \<comment> \<open>line 270\<close>
  "password_of a config = str_or (a_password a) (map_of config ''password'')"

definition apikey_of :: "args \<Rightarrow> (string \<times> string) list \<Rightarrow> string option" where
  \<comment> \<open>line 271\<close>
  "apikey_of a config = str_or (a_apikey a) (map_of config ''apikey'')"

definition exit_status :: "json \<Rightarrow> int" where
  \<comment> \<open>lines 320-328; a \<open>bool\<close> is an \<open>int\<close> (0 or 1) for \<open>isinstance\<close>\<close>
  "exit_status status_code =
     (case status_code of
        JInt n \<Rightarrow> if n < 0 then 1 else if n \<ge> 400 then 2 else 0
      | JBool b \<Rightarrow> 0
      | JStr s \<Rightarrow> if lower s \<notin> set [''success'', ''ok''] then 1 else 0
      | _ \<Rightarrow> 0)"

definition main_except :: "exn \<Rightarrow> event list \<Rightarrow> (exn + int) \<times> event list" where
  \<comment> \<open>lines 329-334\<close>
  "main_except e evs =
     (case e of Exn c _ \<Rightarrow>
        if c = ValueError then (Inr 1, evs)
        else if c = KeyboardInterrupt then (Inr 130, evs)
        else (Inl e, evs))"

definition try_block ::
  "library \<Rightarrow> args \<Rightarrow> string \<Rightarrow> string \<Rightarrow> string option \<Rightarrow> string option \<Rightarrow> json option
   \<Rightarrow> (exn + int) \<times> event list" where
  \<comment> \<open>lines 285-334, with the host, user name, secrets and request data of lines 268-284\<close>
  "try_block lib a h u p k request_data =
     (case new_client h (Some u) p k (\<not> a_no_ssl a) (a_verify_ssl a) (a_timeout a) (a_debug a) of
        Inl e \<Rightarrow> main_except e []
      | Inr self \<Rightarrow>
          (let res = execute_request lib self (a_method a) (a_endpoint a) request_data (a_query a)
           in case fst res of
                Inl e \<Rightarrow> main_except e (snd res)
              | Inr r \<Rightarrow> (Inr (exit_status (fst r)), snd res)))"

type_synonym request_inputs = "string \<times> string \<times> string option \<times> string option \<times> json option"

definition prepare :: "world \<Rightarrow> args \<Rightarrow> (exn + int) + request_inputs" where
  \<comment> \<open>lines 257-284: the host, user name, password, API key and request data, or
      (\<open>Inl\<close>) the \<open>sys.exit\<close> status or the exception that ends \<open>main\<close> there\<close>
  "prepare w a =
     (case (case a_config a of
              None \<Rightarrow> Inr []
            | Some path \<Rightarrow> if path = [] then Inr [] else load_config_file w path) of
        Inl e \<Rightarrow>
          (case e of Exn c _ \<Rightarrow>
             if c = FileNotFoundError \<or> c = ValueError then Inl (Inr 1) else Inl (Inl e))
      | Inr config \<Rightarrow>
          (case host_of a config of
             None \<Rightarrow> Inl (Inr 1)
           | Some h \<Rightarrow>
               if h = [] then Inl (Inr 1)
               else if \<not> str_truthy (apikey_of a config) \<and> \<not> str_truthy (password_of a config)
                 then Inl (Inr 1)
               else
                 (case a_data a of
                    None \<Rightarrow>
                      Inr (h, username_of a config, password_of a config, apikey_of a config, None)
                  | Some text \<Rightarrow>
                      if text = []
                      then Inr (h, username_of a config, password_of a config,
                                apikey_of a config, None)
                      else
                        (case parse_data_argument (json_loads w) text of
                           Inl e \<Rightarrow>
                             (case e of Exn c _ \<Rightarrow>
                                if c = ValueError then Inl (Inr 1) else Inl (Inl e))
                         | Inr d \<Rightarrow>
                             Inr (h, username_of a config, password_of a config,
                                  apikey_of a config, Some d)))))"

definition main_body :: "world \<Rightarrow> args \<Rightarrow> (exn + int) \<times> event list" where
  \<comment> \<open>lines 257-334: \<open>main\<close> once the arguments are parsed\<close>
  "main_body w a =
     (case prepare w a of
        Inl r \<Rightarrow> (r, [])
      | Inr (h, u, p, k, request_data) \<Rightarrow> try_block (fortimanager w) a h u p k request_data)"

definition main :: "world \<Rightarrow> cli \<Rightarrow> (exn + int) \<times> event list" where
  "main w cl =
     (case parse_args cl of
        None \<Rightarrow> (Inr 2, [])
      | Some a \<Rightarrow> main_body w a)"

section \<open>Notions used in the statements\<close>

definition rows_from :: "json \<Rightarrow> json \<Rightarrow> json list" where
  \<comment> \<open>the rows a candidate gives: a list is the rows, a single mapping is wrapped,
      anything else leaves the whole response as the one row\<close>
  "rows_from whole cand = (case cand of JArr xs \<Rightarrow> xs | JObj _ \<Rightarrow> [cand] | _ \<Rightarrow> [whole])"

definition name_text :: "json \<Rightarrow> string" where
  \<comment> \<open>the string form of the \<open>name\<close> entry of a mapping, empty where it has none\<close>
  "name_text v =
     (case v of
        JObj d \<Rightarrow> (case map_of d ''name'' of Some n \<Rightarrow> py_str n | None \<Rightarrow> [])
      | _ \<Rightarrow> [])"

definition flat_ok :: "json \<Rightarrow> bool" where
  \<comment> \<open>every value but a list that starts with a named mapping and holds an element
      that is no mapping\<close>
  "flat_ok v =
     (case v of
        JArr xs \<Rightarrow> (case xs of [] \<Rightarrow> True | x # _ \<Rightarrow> \<not> first_is_named x \<or> list_all is_dict xs)
      | _ \<Rightarrow> True)"

definition row_ok :: "string list \<Rightarrow> json \<Rightarrow> bool" where
  \<comment> \<open>a row that is a mapping whose cells under the given fields all flatten\<close>
  "row_ok fs item =
     (case item of
        JObj d \<Rightarrow> list_all (\<lambda>f. flat_ok (dict_get d f (JStr ''-''))) fs
      | _ \<Rightarrow> False)"

definition renderable :: "json \<Rightarrow> int \<Rightarrow> bool" where
  \<comment> \<open>no row list, no row, no field, or only rows that are \<open>row_ok\<close>\<close>
  "renderable v max_fields =
     (case data_list_of v of
        None \<Rightarrow> True
      | Some data_list \<Rightarrow>
          data_list = [] \<or> detect_fields max_fields data_list = [] \<or>
          list_all (row_ok (detect_fields max_fields data_list)) data_list)"

definition wire_of :: "string \<Rightarrow> wire" where
  \<comment> \<open>the method of the package that stands for a supported verb\<close>
  "wire_of m =
     (if m = ''get'' then WGet else if m = ''add'' then WAdd
      else if m = ''delete'' then WDelete else if m = ''exec'' then WExecute else WUpdate)"

definition sent_kwargs :: "string \<Rightarrow> json option \<Rightarrow> (string \<times> json) list option" where
  \<comment> \<open>the keyword arguments that go with a supported verb: none for \<open>get\<close> and
      \<open>delete\<close>, else the entries of the body (of the empty mapping for a body that is
      absent or false); \<open>None\<close> where the body is no mapping and cannot be unpacked\<close>
  "sent_kwargs m data =
     (if m = ''get'' \<or> m = ''delete'' then Some []
      else (case kwargs_of data of JObj d \<Rightarrow> Some d | _ \<Rightarrow> None))"

definition classified :: "exn_class \<Rightarrow> string \<Rightarrow> exn + json \<times> json" where
  \<comment> \<open>the pair that stands for an exception of a class with a text; \<open>Inl\<close> for
      \<open>KeyboardInterrupt\<close>, which is not turned into a pair\<close>
  "classified cls details =
     (if cls = FMGConnectionError \<or> cls = FMGConnectTimeout
        then Inr (JInt (- 1), error_payload ''Connection failed'' details)
      else if cls = FMGValidSessionException
        then Inr (JInt (- 2), error_payload ''Invalid session'' details)
      else if cls = FMGBaseException
        then Inr (JInt (- 3), error_payload ''API error'' details)
      else if cls = KeyboardInterrupt then Inl (Exn cls details)
      else Inr (JInt (- 4), error_payload ''Unexpected error'' details))"

definition config_read :: "world \<Rightarrow> args \<Rightarrow> (string \<times> string) list \<Rightarrow> bool" where
  \<comment> \<open>the configuration of lines 257-260 is \<open>config\<close>: empty without \<open>--config\<close>, else
      what \<open>load_config_file\<close> returns\<close>
  "config_read w a config =
     (case a_config a of
        None \<Rightarrow> config = []
      | Some path \<Rightarrow> if path = [] then config = [] else load_config_file w path = Inr config)"

definition data_read :: "world \<Rightarrow> args \<Rightarrow> json option \<Rightarrow> bool" where
  \<comment> \<open>the request data of lines 278-281 is \<open>d\<close>: \<open>None\<close> without \<open>--data\<close>, else what
      \<open>json.loads\<close> returns\<close>
  "data_read w a d =
     (case a_data a of
        None \<Rightarrow> d = None
      | Some text \<Rightarrow>
          if text = [] then d = None
          else (case d of None \<Rightarrow> False | Some v \<Rightarrow> json_loads w text = Inr v))"

section \<open>Example inputs\<close>

definition demo_client :: client where
  "demo_client =
     \<lparr>host = ''10.0.0.1'', username = ''admin'', password = Some ''secret'', apikey = None,
      use_ssl = True, verify_ssl = False, timeout = 300, debug = False\<rparr>"

definition answering_conn :: "json \<Rightarrow> json \<Rightarrow> conn" where
  \<comment> \<open>a connection that logs in and answers every request with the given status and
      payload\<close>
  "answering_conn st payload =
     \<lparr>enter = None, call = (\<lambda>w endpoint args kwargs. Inr (st, payload)),
      leave = (\<lambda>pending. None)\<rparr>"

definition answering :: "json \<Rightarrow> json \<Rightarrow> library" where
  \<comment> \<open>a device behind such a connection\<close>
  "answering st payload ca = Inr (answering_conn st payload)"

definition login_raising :: "exn \<Rightarrow> library" where
  \<comment> \<open>a connection whose login raises\<close>
  "login_raising e ca =
     Inr \<lparr>enter = Some e, call = (\<lambda>w endpoint args kwargs. Inl e),
          leave = (\<lambda>pending. None)\<rparr>"

definition not_found_payload :: json where
  "not_found_payload =
     JObj [(''status'', JObj [(''code'', JInt (- 3)), (''message'', JStr ''Object does not exist'')]),
           (''url'', JStr ''/pm/config/adom/root/obj/firewall/address/none'')]"

definition demo_cli :: cli where
  "demo_cli =
     \<lparr>c_config = None, c_host = Some ''10.0.0.1'', c_username = None,
      c_password = Some ''secret'', c_apikey = None, c_method = Some ''get'',
      c_endpoint = Some ''/pm/config/adom/root/obj/firewall/address'', c_data = None,
      c_query = None, c_no_ssl = False, c_verify_ssl = False, c_ssl_warnings = False,
      c_timeout = Absent, c_debug = False, c_format = None, c_table_max_width = Absent,
      c_table_max_fields = Absent\<rparr>"

definition demo_args :: args where
  \<comment> \<open>what \<open>parse_args\<close> makes of \<open>demo_cli\<close>\<close>
  "demo_args =
     \<lparr>a_config = None, a_host = Some ''10.0.0.1'', a_username = ''admin'',
      a_password = Some ''secret'', a_apikey = None, a_method = ''get'',
      a_endpoint = ''/pm/config/adom/root/obj/firewall/address'', a_data = None,
      a_query = None, a_no_ssl = False, a_verify_ssl = False, a_ssl_warnings = False,
      a_timeout = 300, a_debug = False, a_format = ''json'', a_table_max_width = 50,
      a_table_max_fields = 6\<rparr>"

definition demo_world :: "library \<Rightarrow> world" where
  "demo_world lib =
     \<lparr>load_config_file = (\<lambda>path. Inl (Exn FileNotFoundError (''Configuration file not found: '' @ path))),
      json_loads = (\<lambda>text. Inl ''Expecting value: line 1 column 1 (char 0)''),
      fortimanager = lib\<rparr>"

definition plain_tab :: "string list \<Rightarrow> string list list \<Rightarrow> string" where
  \<comment> \<open>a stand-in for the tabulate package: one line per row, cells set apart by a bar\<close>
  "plain_tab headers rows = join [CHR 0x0A] (map (join ''|'') (headers # rows))"

definition wide_row :: json where
  \<comment> \<open>a mapping with the 1000 keys \<open>k\<close>, \<open>kk\<close>, \<open>kkk\<close>, ...\<close>
  "wide_row = JObj (map (\<lambda>i. (replicate i CHR ''k'', JNull)) [1..<1001])"

definition scripted_conn :: "exn option \<Rightarrow> exn + json \<times> json \<Rightarrow> exn option \<Rightarrow> conn" where
  \<comment> \<open>a connection with a fixed outcome of login, of every request and of logout\<close>
  "scripted_conn login answer logout =
     \<lparr>enter = login, call = (\<lambda>w endpoint args kwargs. answer), leave = (\<lambda>pending. logout)\<rparr>"

definition serving :: "conn \<Rightarrow> library" where
  \<comment> \<open>a package whose constructor gives this connection\<close>
  "serving c ca = Inr c"

definition refusing :: "exn \<Rightarrow> library" where
  \<comment> \<open>a package whose constructor raises\<close>
  "refusing e ca = Inl e"

section \<open>Properties of \<open>execute_request\<close>\<close>

lemma dispatch_events:
  "ev \<in> set (snd (dispatch c m e d q)) \<Longrightarrow> \<exists>w a k. ev = Call w e a k"
  by (auto simp: dispatch_def call_kw_def Let_def split: if_splits json.splits)

lemma attempt_events:
  "Call w p a k \<in> set (snd (request_attempt lib self m e d q)) \<Longrightarrow> p = e"
  by (auto simp: request_attempt_def Let_def split: sum.splits option.splits dest: dispatch_events)

lemma execute_events:
  "Call w p a k \<in> set (snd (execute_request lib self m e d q)) \<Longrightarrow> p = normalize_endpoint e"
  by (auto simp: execute_request_def Let_def split: if_splits sum.splits dest: attempt_events)

lemma normalize_starts: "startswith (normalize_endpoint e) ''/''"
  by (cases e) (auto simp: normalize_endpoint_def startswith_def)

lemma normalize_idem: "normalize_endpoint (normalize_endpoint e) = normalize_endpoint e"
  using normalize_starts [of e] by (simp add: normalize_endpoint_def)

lemma dispatch_sends:
  "m \<in> set supported \<Longrightarrow> m \<in> {''get'', ''delete''} \<or> is_dict (kwargs_of d) \<Longrightarrow>
   \<exists>w a k. Call w e a k \<in> set (snd (dispatch c m e d q))"
  by (auto simp: dispatch_def call_kw_def Let_def supported_def is_dict_def split: json.splits)

lemma attempt_sends:
  assumes "m \<in> set supported" "m \<in> {''get'', ''delete''} \<or> is_dict (kwargs_of d)"
    "lib (create_connection_args self) = Inr c" "enter c = None"
  shows "\<exists>w a k. Call w e a k \<in> set (snd (request_attempt lib self m e d q))"
proof -
  obtain w a k where "Call w e a k \<in> set (snd (dispatch c m e d q))"
    using dispatch_sends [OF assms(1,2)] by blast
  then show ?thesis
    using assms(3,4) by (auto simp: request_attempt_def Let_def split: option.splits)
qed

text \<open>
  Claim C7. Every request that \<open>execute_request\<close> sends carries the path
  \<open>normalize_endpoint endpoint\<close>: it begins with \<open>/\<close>, it is the caller's path
  where that already begins with \<open>/\<close> and the caller's path with one \<open>/\<close> in front
  otherwise, and normalizing it again changes nothing. For a supported verb a request
  is sent once the connection is open (for \<open>add\<close>, \<open>set\<close>, \<open>update\<close> and \<open>exec\<close>
  the body has to be a mapping).
\<close>

theorem request_path_begins_with_slash:
  "(Call w p args kw \<in> set (snd (execute_request lib self verb endpoint data qp)) \<longrightarrow>
      p = normalize_endpoint endpoint \<and> startswith p ''/'' \<and>
      (startswith endpoint ''/'' \<longrightarrow> p = endpoint) \<and>
      (\<not> startswith endpoint ''/'' \<longrightarrow> p = CHR ''/'' # endpoint) \<and>
      normalize_endpoint p = p) \<and>
   (lower verb \<in> set supported \<and>
    (lower verb \<in> {''get'', ''delete''} \<or> is_dict (kwargs_of data)) \<and>
    lib (create_connection_args self) = Inr c \<and> enter c = None \<longrightarrow>
      (\<exists>w' args' kw'. Call w' (normalize_endpoint endpoint) args' kw'
          \<in> set (snd (execute_request lib self verb endpoint data qp))))"
proof (intro conjI impI)
  assume h: "Call w p args kw \<in> set (snd (execute_request lib self verb endpoint data qp))"
  then show p: "p = normalize_endpoint endpoint" by (rule execute_events)
  show "startswith p ''/''" using p normalize_starts by simp
  show "p = endpoint" if "startswith endpoint ''/''"
    using p that by (simp add: normalize_endpoint_def)
  show "p = CHR ''/'' # endpoint" if "\<not> startswith endpoint ''/''"
    using p that by (simp add: normalize_endpoint_def)
  show "normalize_endpoint p = p" using p normalize_idem by simp
next
  assume h: "lower verb \<in> set supported \<and>
    (lower verb \<in> {''get'', ''delete''} \<or> is_dict (kwargs_of data)) \<and>
    lib (create_connection_args self) = Inr c \<and> enter c = None"
  then obtain w' a' k' where
    "Call w' (normalize_endpoint endpoint) a' k'
       \<in> set (snd (request_attempt lib self (lower verb) (normalize_endpoint endpoint) data qp))"
    using attempt_sends [of "lower verb" data lib self c "normalize_endpoint endpoint" qp] by blast
  then have "Call w' (normalize_endpoint endpoint) a' k'
       \<in> set (snd (execute_request lib self verb endpoint data qp))"
    using h by (auto simp: execute_request_def Let_def split: sum.splits)
  then show "\<exists>w' args' kw'. Call w' (normalize_endpoint endpoint) args' kw'
          \<in> set (snd (execute_request lib self verb endpoint data qp))" by blast
qed

text \<open>The verb \<open>GET\<close> on \<open>pm/config\<close>: the request goes to \<open>/pm/config\<close>.\<close>

theorem request_path_begins_with_slash_witness:
  "Call WGet ''/pm/config'' [''x''] []
     \<in> set (snd (execute_request (answering (JInt 0) JNull) demo_client ''GET'' ''pm/config'' None (Some [''x'']))) \<and>
   startswith ''/pm/config'' ''/'' \<and> \<not> startswith ''pm/config'' ''/'' \<and>
   ''/pm/config'' = CHR ''/'' # ''pm/config'' \<and>
   normalize_endpoint ''/pm/config'' = ''/pm/config'' \<and>
   lower ''GET'' \<in> set supported \<and> lower ''GET'' \<in> {''get'', ''delete''} \<and>
   answering (JInt 0) JNull (create_connection_args demo_client) = Inr (answering_conn (JInt 0) JNull) \<and>
   enter (answering_conn (JInt 0) JNull) = None \<and>
   (\<exists>w' args' kw'. Call w' (normalize_endpoint ''pm/config'') args' kw'
      \<in> set (snd (execute_request (answering (JInt 0) JNull) demo_client ''GET'' ''pm/config'' None (Some [''x'']))))"
proof -
  have h: "Call WGet ''/pm/config'' [''x''] []
     \<in> set (snd (execute_request (answering (JInt 0) JNull) demo_client ''GET'' ''pm/config'' None (Some [''x''])))"
    by code_simp
  have n: "\<not> startswith ''pm/config'' ''/''" by code_simp
  have s: "lower ''GET'' \<in> set supported \<and> lower ''GET'' \<in> {''get'', ''delete''}" by code_simp
  have l: "answering (JInt 0) JNull (create_connection_args demo_client) = Inr (answering_conn (JInt 0) JNull) \<and>
           enter (answering_conn (JInt 0) JNull) = None"
    by (simp add: answering_def answering_conn_def)
  from request_path_begins_with_slash
    [where w = WGet and p = "''/pm/config''" and args = "[''x'']" and kw = "[]"
       and lib = "answering (JInt 0) JNull" and self = demo_client and verb = "''GET''"
       and endpoint = "''pm/config''" and data = None and qp = "Some [''x'']"
       and c = "answering_conn (JInt 0) JNull"] h n s l
  show ?thesis by blast
qed

text \<open>
  Claim C8. With the verb \<open>set\<close> and with the verb \<open>update\<close>, on the same endpoint,
  body and query parameters, \<open>execute_request\<close> returns the same result and does the
  same with the package (the same \<open>update\<close> call).
\<close>

theorem set_update_alias:
  "execute_request lib self ''set'' endpoint data qp =
   execute_request lib self ''update'' endpoint data qp"
proof -
  have l: "lower ''set'' = ''set''" "lower ''update'' = ''update''"
    by (simp_all add: lower_def lower_char_def)
  have d: "dispatch c ''set'' e data qp = dispatch c ''update'' e data qp" for c e
    by (simp add: dispatch_def)
  have "request_attempt lib self ''set'' e data qp = request_attempt lib self ''update'' e data qp" for e
    unfolding request_attempt_def d ..
  then show ?thesis
    by (simp add: execute_request_def l supported_def)
qed

text \<open>An update of the comment of one address, sent as \<open>set\<close> and as \<open>update\<close>.\<close>

theorem set_update_alias_witness:
  "execute_request (answering (JInt 0) JNull) demo_client ''set''
     ''pm/config/adom/root/obj/firewall/address/a1'' (Some (JObj [(''comment'', JStr ''new'')])) None =
   execute_request (answering (JInt 0) JNull) demo_client ''update''
     ''pm/config/adom/root/obj/firewall/address/a1'' (Some (JObj [(''comment'', JStr ''new'')])) None"
  by (rule set_update_alias)

text \<open>
  Claim C1, as amended. For a verb whose lower-case form is none of \<open>get\<close>, \<open>add\<close>,
  \<open>set\<close>, \<open>update\<close>, \<open>delete\<close>, \<open>exec\<close>, \<open>execute_request\<close> raises
  \<open>ValueError\<close> with the text "Unsupported HTTP method: " and the lower-case verb, and
  does nothing with the package: no connection is created.
\<close>

theorem unsupported_verb_raises:
  "lower verb \<notin> set supported \<Longrightarrow>
     execute_request lib self verb endpoint data query_params =
       (Inl (Exn ValueError (''Unsupported HTTP method: '' @ lower verb)), [])"
  by (simp add: execute_request_def)

text \<open>The verb \<open>foo\<close>.\<close>

theorem unsupported_verb_raises_witness:
  "lower ''foo'' \<notin> set supported \<and>
   execute_request (answering (JInt 0) JNull) demo_client ''foo'' ''/sys/status'' None None =
     (Inl (Exn ValueError (''Unsupported HTTP method: '' @ lower ''foo'')), [])"
proof -
  have h: "lower ''foo'' \<notin> set supported" by code_simp
  show ?thesis using h unsupported_verb_raises [OF h] by simp
qed

text \<open>
  Claim C1 as stated fails: for the verb \<open>foo\<close> the call raises \<open>ValueError\<close> and
  returns no pair, so not the pair with status -5.
\<close>

theorem unsupported_verb_counterexample:
  "fst (execute_request (answering (JInt 0) JNull) demo_client ''foo'' ''/sys/status'' None None)
     = Inl (Exn ValueError ''Unsupported HTTP method: foo'') \<and>
   fst (execute_request (answering (JInt 0) JNull) demo_client ''foo'' ''/sys/status'' None None)
     \<noteq> Inr (JInt (- 5), error_payload ''Unsupported method'' ''Method foo not supported'')"
  by code_simp

lemma handle_exception_classified: "handle_exception (Exn cls details) = classified cls details"
  by (simp add: handle_exception_def classified_def is_FMGBaseException_def is_Exception_def)

lemma classified_TypeError:
  "classified TypeError text = Inr (JInt (- 4), error_payload ''Unexpected error'' text)"
  by (simp add: classified_def)

lemma dispatch_is_call:
  "m \<in> set supported \<Longrightarrow>
   fst (dispatch c m e d q) =
     (case sent_kwargs m d of
        Some kw \<Rightarrow> call c (wire_of m) e (args_of q) kw
      | None \<Rightarrow>
          Inl (Exn TypeError
                 (''pyFMG.fortimgr.FortiManager.'' @ wire_name (wire_of m) @
                  ''() argument after ** must be a mapping, not '' @ type_name (kwargs_of d))))"
  by (auto simp: supported_def dispatch_def call_kw_def sent_kwargs_def wire_of_def Let_def
           split: json.splits)

lemma request_attempt_is_call:
  assumes "m \<in> set supported"
  shows "fst (request_attempt lib self m e d q) =
     (case lib (create_connection_args self) of
        Inl x \<Rightarrow> Inl x
      | Inr c \<Rightarrow>
          (case enter c of
             Some x \<Rightarrow> Inl x
           | None \<Rightarrow>
               (case leave c (case fst (dispatch c m e d q) of Inl x \<Rightarrow> Some x | Inr _ \<Rightarrow> None) of
                  Some x \<Rightarrow> Inl x
                | None \<Rightarrow> fst (dispatch c m e d q))))"
  by (simp add: request_attempt_def Let_def split: sum.splits option.splits)

lemma execute_request_supported:
  "lower verb \<in> set supported \<Longrightarrow>
   fst (execute_request lib self verb endpoint data qp) =
     (case fst (request_attempt lib self (lower verb) (normalize_endpoint endpoint) data qp) of
        Inl e \<Rightarrow> handle_exception e
      | Inr r \<Rightarrow> Inr r)"
  by (simp add: execute_request_def Let_def split: sum.splits)

text \<open>
  Claim C3, as amended. For a supported verb the client makes one request: the method
  \<open>wire_of\<close> of the package on the normalized path with the query parameters and
  \<open>sent_kwargs\<close>. If the package answers it with a pair and login and logout raise
  nothing, that pair is the result, unchanged, whatever its status is. An exception
  raised by the constructor, by login, by the request or by logout becomes the one
  pair \<open>classified\<close> gives for its class: -1 "Connection failed" for
  \<open>FMGConnectionError\<close> and \<open>FMGConnectTimeout\<close>, -2 "Invalid session" for
  \<open>FMGValidSessionException\<close>, -3 "API error" for any other \<open>FMGBaseException\<close>, -4
  "Unexpected error" for any other \<open>Exception\<close> (also for a body that is no mapping),
  with the exception's text as details, while \<open>KeyboardInterrupt\<close> goes on to the
  caller. A negative integer status in the result is either the status of the pair the
  package answered, or one of -1 to -4 made from an exception that was raised.
\<close>

theorem classified_results:
  assumes sup: "lower verb \<in> set supported"
  shows
   "(lib (create_connection_args self) = Inr c \<and> enter c = None \<and>
     sent_kwargs (lower verb) data = Some kw \<and>
     call c (wire_of (lower verb)) (normalize_endpoint endpoint) (args_of qp) kw = Inr r \<and>
     leave c None = None \<longrightarrow>
       fst (execute_request lib self verb endpoint data qp) = Inr r) \<and>
    (lib (create_connection_args self) = Inl (Exn cls details) \<longrightarrow>
       fst (execute_request lib self verb endpoint data qp) = classified cls details) \<and>
    (lib (create_connection_args self) = Inr c \<and> enter c = Some (Exn cls details) \<longrightarrow>
       fst (execute_request lib self verb endpoint data qp) = classified cls details) \<and>
    (lib (create_connection_args self) = Inr c \<and> enter c = None \<and>
     sent_kwargs (lower verb) data = Some kw \<and>
     call c (wire_of (lower verb)) (normalize_endpoint endpoint) (args_of qp) kw
       = Inl (Exn cls details) \<and>
     leave c (Some (Exn cls details)) = None \<longrightarrow>
       fst (execute_request lib self verb endpoint data qp) = classified cls details) \<and>
    (lib (create_connection_args self) = Inr c \<and> enter c = None \<and>
     sent_kwargs (lower verb) data = Some kw \<and>
     leave c (case call c (wire_of (lower verb)) (normalize_endpoint endpoint) (args_of qp) kw of
                Inl x \<Rightarrow> Some x | Inr y \<Rightarrow> None) = Some (Exn cls details) \<longrightarrow>
       fst (execute_request lib self verb endpoint data qp) = classified cls details) \<and>
    (lib (create_connection_args self) = Inr c \<and> enter c = None \<and>
     sent_kwargs (lower verb) data = None \<and> (\<forall>pending. leave c pending = None) \<longrightarrow>
       (\<exists>text. fst (execute_request lib self verb endpoint data qp)
                = Inr (JInt (- 4), error_payload ''Unexpected error'' text))) \<and>
    (fst (execute_request lib self verb endpoint data qp) = Inr (JInt n, payload) \<and> n < 0 \<longrightarrow>
       (\<exists>c' kw'. lib (create_connection_args self) = Inr c' \<and> enter c' = None \<and>
          sent_kwargs (lower verb) data = Some kw' \<and>
          call c' (wire_of (lower verb)) (normalize_endpoint endpoint) (args_of qp) kw'
            = Inr (JInt n, payload)) \<or>
       (\<exists>cls' details'.
          classified cls' details' = Inr (JInt n, payload) \<and> n \<in> {- 1, - 2, - 3, - 4} \<and>
          (lib (create_connection_args self) = Inl (Exn cls' details') \<or>
           (\<exists>c'. lib (create_connection_args self) = Inr c' \<and>
              (enter c' = Some (Exn cls' details') \<or>
               (\<exists>pending. leave c' pending = Some (Exn cls' details')) \<or>
               (\<exists>kw'. call c' (wire_of (lower verb)) (normalize_endpoint endpoint) (args_of qp) kw'
                        = Inl (Exn cls' details')) \<or>
               (cls' = TypeError \<and> sent_kwargs (lower verb) data = None))))))"
proof -
  let ?m = "lower verb" and ?e = "normalize_endpoint endpoint"
  let ?res = "fst (execute_request lib self verb endpoint data qp)"
  let ?att = "fst (request_attempt lib self ?m ?e data qp)"
  note ex = execute_request_supported [OF sup, of lib self endpoint data qp]
  note att = request_attempt_is_call [OF sup, of lib self ?e data qp]
  note dis = dispatch_is_call [OF sup]
  have c1: "?res = Inr r"
    if "lib (create_connection_args self) = Inr c \<and> enter c = None \<and>
        sent_kwargs ?m data = Some kw \<and>
        call c (wire_of ?m) ?e (args_of qp) kw = Inr r \<and> leave c None = None"
    using that by (simp add: ex att dis)
  have c2: "?res = classified cls details"
    if "lib (create_connection_args self) = Inl (Exn cls details)"
    using that by (simp add: ex att handle_exception_classified)
  have c3: "?res = classified cls details"
    if "lib (create_connection_args self) = Inr c \<and> enter c = Some (Exn cls details)"
    using that by (simp add: ex att handle_exception_classified)
  have c4: "?res = classified cls details"
    if "lib (create_connection_args self) = Inr c \<and> enter c = None \<and>
        sent_kwargs ?m data = Some kw \<and>
        call c (wire_of ?m) ?e (args_of qp) kw = Inl (Exn cls details) \<and>
        leave c (Some (Exn cls details)) = None"
    using that by (simp add: ex att dis handle_exception_classified)
  have c5: "?res = classified cls details"
    if "lib (create_connection_args self) = Inr c \<and> enter c = None \<and>
        sent_kwargs ?m data = Some kw \<and>
        leave c (case call c (wire_of ?m) ?e (args_of qp) kw of
                   Inl x \<Rightarrow> Some x | Inr y \<Rightarrow> None) = Some (Exn cls details)"
    using that by (simp add: ex att dis handle_exception_classified)
  have c6: "\<exists>text. ?res = Inr (JInt (- 4), error_payload ''Unexpected error'' text)"
    if "lib (create_connection_args self) = Inr c \<and> enter c = None \<and>
        sent_kwargs ?m data = None \<and> (\<forall>pending. leave c pending = None)"
  proof -
    have "?res = classified TypeError
        (''pyFMG.fortimgr.FortiManager.'' @ wire_name (wire_of ?m) @
         ''() argument after ** must be a mapping, not '' @ type_name (kwargs_of data))"
      using that by (simp add: ex att dis handle_exception_classified)
    then have "?res = Inr (JInt (- 4), error_payload ''Unexpected error''
        (''pyFMG.fortimgr.FortiManager.'' @ wire_name (wire_of ?m) @
         ''() argument after ** must be a mapping, not '' @ type_name (kwargs_of data)))"
      by (simp only: classified_TypeError)
    then show ?thesis by blast
  qed
  have c7: "(\<exists>c' kw'. lib (create_connection_args self) = Inr c' \<and> enter c' = None \<and>
          sent_kwargs ?m data = Some kw' \<and>
          call c' (wire_of ?m) ?e (args_of qp) kw' = Inr (JInt n, payload)) \<or>
       (\<exists>cls' details'.
          classified cls' details' = Inr (JInt n, payload) \<and> n \<in> {- 1, - 2, - 3, - 4} \<and>
          (lib (create_connection_args self) = Inl (Exn cls' details') \<or>
           (\<exists>c'. lib (create_connection_args self) = Inr c' \<and>
              (enter c' = Some (Exn cls' details') \<or>
               (\<exists>pending. leave c' pending = Some (Exn cls' details')) \<or>
               (\<exists>kw'. call c' (wire_of ?m) ?e (args_of qp) kw' = Inl (Exn cls' details')) \<or>
               (cls' = TypeError \<and> sent_kwargs ?m data = None)))))"
    if h: "?res = Inr (JInt n, payload) \<and> n < 0"
  proof (cases ?att)
    case (Inr r')
    then have r': "r' = (JInt n, payload)" using h by (simp add: ex)
    from Inr obtain c' where c': "lib (create_connection_args self) = Inr c'" "enter c' = None"
      and d: "fst (dispatch c' ?m ?e data qp) = Inr r'"
      by (auto simp: att split: sum.splits option.splits)
    from d obtain kw' where "sent_kwargs ?m data = Some kw'"
      "call c' (wire_of ?m) ?e (args_of qp) kw' = Inr r'"
      by (auto simp: dis split: option.splits)
    with c' r' show ?thesis by blast
  next
    case (Inl x)
    obtain cls' details' where x: "x = Exn cls' details'" by (cases x)
    have cl: "classified cls' details' = Inr (JInt n, payload)"
      using h Inl x by (simp add: ex handle_exception_classified)
    then have n: "n \<in> {- 1, - 2, - 3, - 4}"
      by (auto simp: classified_def split: if_splits)
    have src: "lib (create_connection_args self) = Inl (Exn cls' details') \<or>
           (\<exists>c'. lib (create_connection_args self) = Inr c' \<and>
              (enter c' = Some (Exn cls' details') \<or>
               (\<exists>pending. leave c' pending = Some (Exn cls' details')) \<or>
               (\<exists>kw'. call c' (wire_of ?m) ?e (args_of qp) kw' = Inl (Exn cls' details')) \<or>
               (cls' = TypeError \<and> sent_kwargs ?m data = None)))"
    proof (cases "lib (create_connection_args self)")
      case (Inl y)
      then show ?thesis using \<open>?att = Inl x\<close> x by (simp add: att)
    next
      case (Inr c')
      show ?thesis
      proof (cases "enter c'")
        case (Some y)
        then show ?thesis using Inr \<open>?att = Inl x\<close> x by (simp add: att)
      next
        case None
        let ?d = "fst (dispatch c' ?m ?e data qp)"
        show ?thesis
        proof (cases "leave c' (case ?d of Inl x \<Rightarrow> Some x | Inr _ \<Rightarrow> None)")
          case (Some y)
          then have "y = Exn cls' details'"
            using Inr None \<open>?att = Inl x\<close> x by (simp add: att)
          with Some Inr show ?thesis by blast
        next
          case lv: None
          then have d: "?d = Inl (Exn cls' details')"
            using Inr None \<open>?att = Inl x\<close> x by (simp add: att)
          then show ?thesis using Inr
            by (auto simp: dis split: option.splits)
        qed
      qed
    qed
    from cl n src show ?thesis by blast
  qed
  from c1 c2 c3 c4 c5 c6 c7 show ?thesis by blast
qed

text \<open>
  A device that answers status 0; a constructor that cannot connect; a login with an
  expired session; a request the package refuses; a logout that fails; and a body that
  is a list.
\<close>

theorem classified_results_witness:
  "lower ''get'' \<in> set supported \<and>
   answering (JInt 0) (JStr ''up'') (create_connection_args demo_client)
     = Inr (answering_conn (JInt 0) (JStr ''up'')) \<and>
   enter (answering_conn (JInt 0) (JStr ''up'')) = None \<and>
   sent_kwargs (lower ''get'') None = Some [] \<and>
   call (answering_conn (JInt 0) (JStr ''up'')) (wire_of (lower ''get''))
     (normalize_endpoint ''sys/status'') (args_of None) [] = Inr (JInt 0, JStr ''up'') \<and>
   leave (answering_conn (JInt 0) (JStr ''up'')) None = None \<and>
   fst (execute_request (answering (JInt 0) (JStr ''up'')) demo_client ''get'' ''sys/status''
          None None) = Inr (JInt 0, JStr ''up'') \<and>
   refusing (Exn FMGConnectionError ''refused'') (create_connection_args demo_client)
     = Inl (Exn FMGConnectionError ''refused'') \<and>
   fst (execute_request (refusing (Exn FMGConnectionError ''refused'')) demo_client ''get''
          ''sys/status'' None None)
     = Inr (JInt (- 1), error_payload ''Connection failed'' ''refused'') \<and>
   (- 1 :: int) < 0 \<and>
   ((\<exists>c' kw'. refusing (Exn FMGConnectionError ''refused'') (create_connection_args demo_client)
                  = Inr c' \<and> enter c' = None \<and>
        sent_kwargs (lower ''get'') None = Some kw' \<and>
        call c' (wire_of (lower ''get'')) (normalize_endpoint ''sys/status'') (args_of None) kw'
          = Inr (JInt (- 1), error_payload ''Connection failed'' ''refused'')) \<or>
    (\<exists>cls' details'.
        classified cls' details'
          = Inr (JInt (- 1), error_payload ''Connection failed'' ''refused'') \<and>
        (- 1 :: int) \<in> {- 1, - 2, - 3, - 4} \<and>
        (refusing (Exn FMGConnectionError ''refused'') (create_connection_args demo_client)
           = Inl (Exn cls' details') \<or>
         (\<exists>c'. refusing (Exn FMGConnectionError ''refused'') (create_connection_args demo_client)
                  = Inr c' \<and>
            (enter c' = Some (Exn cls' details') \<or>
             (\<exists>pending. leave c' pending = Some (Exn cls' details')) \<or>
             (\<exists>kw'. call c' (wire_of (lower ''get'')) (normalize_endpoint ''sys/status'')
                       (args_of None) kw' = Inl (Exn cls' details')) \<or>
             (cls' = TypeError \<and> sent_kwargs (lower ''get'') None = None)))))) \<and>
   enter (scripted_conn (Some (Exn FMGValidSessionException ''expired''))
            (Inr (JInt 0, JNull)) None) = Some (Exn FMGValidSessionException ''expired'') \<and>
   fst (execute_request
          (serving (scripted_conn (Some (Exn FMGValidSessionException ''expired''))
                      (Inr (JInt 0, JNull)) None))
          demo_client ''get'' ''sys/status'' None None)
     = Inr (JInt (- 2), error_payload ''Invalid session'' ''expired'') \<and>
   call (scripted_conn None (Inl (Exn FMGBaseException ''bad url'')) None) (wire_of (lower ''get''))
     (normalize_endpoint ''sys/status'') (args_of None) [] = Inl (Exn FMGBaseException ''bad url'') \<and>
   fst (execute_request
          (serving (scripted_conn None (Inl (Exn FMGBaseException ''bad url'')) None))
          demo_client ''get'' ''sys/status'' None None)
     = Inr (JInt (- 3), error_payload ''API error'' ''bad url'') \<and>
   leave (scripted_conn None (Inr (JInt 0, JNull)) (Some (Exn OtherException ''boom'')))
     (case call (scripted_conn None (Inr (JInt 0, JNull)) (Some (Exn OtherException ''boom'')))
             (wire_of (lower ''get'')) (normalize_endpoint ''sys/status'') (args_of None) [] of
        Inl x \<Rightarrow> Some x | Inr y \<Rightarrow> None) = Some (Exn OtherException ''boom'') \<and>
   fst (execute_request
          (serving (scripted_conn None (Inr (JInt 0, JNull)) (Some (Exn OtherException ''boom''))))
          demo_client ''get'' ''sys/status'' None None)
     = Inr (JInt (- 4), error_payload ''Unexpected error'' ''boom'') \<and>
   lower ''add'' \<in> set supported \<and>
   sent_kwargs (lower ''add'') (Some (JArr [JInt 1])) = None \<and>
   (\<forall>pending. leave (answering_conn (JInt 0) (JStr ''up'')) pending = None) \<and>
   (\<exists>text. fst (execute_request (answering (JInt 0) (JStr ''up'')) demo_client ''add''
                   ''sys/status'' (Some (JArr [JInt 1])) None)
             = Inr (JInt (- 4), error_payload ''Unexpected error'' text))"
proof -
  let ?up = "answering_conn (JInt 0) (JStr ''up'')"
  let ?no = "Exn FMGConnectionError ''refused''"
  let ?c3 = "scripted_conn (Some (Exn FMGValidSessionException ''expired'')) (Inr (JInt 0, JNull)) None"
  let ?c4 = "scripted_conn None (Inl (Exn FMGBaseException ''bad url'')) None"
  let ?c5 = "scripted_conn None (Inr (JInt 0, JNull)) (Some (Exn OtherException ''boom''))"
  have s: "lower ''get'' \<in> set supported" by code_simp
  have s': "lower ''add'' \<in> set supported" by code_simp
  have k: "sent_kwargs (lower ''get'') None = Some []" by code_simp
  have k': "sent_kwargs (lower ''add'') (Some (JArr [JInt 1])) = None" by code_simp
  have neg: "(- 1 :: int) < 0" by simp
  have u1: "answering (JInt 0) (JStr ''up'') (create_connection_args demo_client) = Inr ?up"
    by (simp add: answering_def)
  have u2: "enter ?up = None" "leave ?up None = None" "\<forall>pending. leave ?up pending = None"
    "call ?up (wire_of (lower ''get'')) (normalize_endpoint ''sys/status'') (args_of None) []
       = Inr (JInt 0, JStr ''up'')"
    by (simp_all add: answering_conn_def)
  have n1: "refusing ?no (create_connection_args demo_client) = Inl ?no"
    by (simp add: refusing_def)
  have v: "serving c (create_connection_args demo_client) = Inr c" for c
    by (simp add: serving_def)
  have e3: "enter ?c3 = Some (Exn FMGValidSessionException ''expired'')"
    by (simp add: scripted_conn_def)
  have e4: "enter ?c4 = None" "leave ?c4 (Some (Exn FMGBaseException ''bad url'')) = None"
    "call ?c4 (wire_of (lower ''get'')) (normalize_endpoint ''sys/status'') (args_of None) []
       = Inl (Exn FMGBaseException ''bad url'')"
    by (simp_all add: scripted_conn_def)
  have e5: "enter ?c5 = None"
    "leave ?c5 (case call ?c5 (wire_of (lower ''get'')) (normalize_endpoint ''sys/status'')
                       (args_of None) [] of Inl x \<Rightarrow> Some x | Inr y \<Rightarrow> None)
       = Some (Exn OtherException ''boom'')"
    by (simp_all add: scripted_conn_def)
  from classified_results [OF s, where lib = "answering (JInt 0) (JStr ''up'')" and self = demo_client
      and endpoint = "''sys/status''" and data = None and qp = None and c = ?up and kw = "[]"
      and r = "(JInt 0, JStr ''up'')"] u1 u2 k
  have r1: "fst (execute_request (answering (JInt 0) (JStr ''up'')) demo_client ''get''
              ''sys/status'' None None) = Inr (JInt 0, JStr ''up'')"
    by blast
  note down = classified_results [OF s, where lib = "refusing ?no" and self = demo_client
      and endpoint = "''sys/status''" and data = None and qp = None
      and cls = FMGConnectionError and details = "''refused''" and n = "- 1"
      and payload = "error_payload ''Connection failed'' ''refused''"]
  from down n1
  have "fst (execute_request (refusing ?no) demo_client ''get'' ''sys/status'' None None)
          = classified FMGConnectionError ''refused''"
    by blast
  then have r2: "fst (execute_request (refusing ?no) demo_client ''get'' ''sys/status'' None None)
          = Inr (JInt (- 1), error_payload ''Connection failed'' ''refused'')"
    by (simp add: classified_def)
  from down [THEN conjunct2, THEN conjunct2, THEN conjunct2, THEN conjunct2, THEN conjunct2,
      THEN conjunct2] r2 neg
  have r7: "(\<exists>c' kw'. refusing ?no (create_connection_args demo_client) = Inr c' \<and> enter c' = None \<and>
        sent_kwargs (lower ''get'') None = Some kw' \<and>
        call c' (wire_of (lower ''get'')) (normalize_endpoint ''sys/status'') (args_of None) kw'
          = Inr (JInt (- 1), error_payload ''Connection failed'' ''refused'')) \<or>
    (\<exists>cls' details'.
        classified cls' details'
          = Inr (JInt (- 1), error_payload ''Connection failed'' ''refused'') \<and>
        (- 1 :: int) \<in> {- 1, - 2, - 3, - 4} \<and>
        (refusing ?no (create_connection_args demo_client) = Inl (Exn cls' details') \<or>
         (\<exists>c'. refusing ?no (create_connection_args demo_client) = Inr c' \<and>
            (enter c' = Some (Exn cls' details') \<or>
             (\<exists>pending. leave c' pending = Some (Exn cls' details')) \<or>
             (\<exists>kw'. call c' (wire_of (lower ''get'')) (normalize_endpoint ''sys/status'')
                       (args_of None) kw' = Inl (Exn cls' details')) \<or>
             (cls' = TypeError \<and> sent_kwargs (lower ''get'') None = None)))))"
    by (rule mp [OF _ conjI])
  from classified_results [OF s, where lib = "serving ?c3" and self = demo_client
      and endpoint = "''sys/status''" and data = None and qp = None and c = ?c3
      and cls = FMGValidSessionException and details = "''expired''"] v [of ?c3] e3
  have "fst (execute_request (serving ?c3) demo_client ''get'' ''sys/status'' None None)
          = classified FMGValidSessionException ''expired''"
    by blast
  then have r3: "fst (execute_request (serving ?c3) demo_client ''get'' ''sys/status'' None None)
          = Inr (JInt (- 2), error_payload ''Invalid session'' ''expired'')"
    by (simp add: classified_def)
  from classified_results [OF s, where lib = "serving ?c4" and self = demo_client
      and endpoint = "''sys/status''" and data = None and qp = None and c = ?c4 and kw = "[]"
      and cls = FMGBaseException and details = "''bad url''"] v [of ?c4] e4 k
  have "fst (execute_request (serving ?c4) demo_client ''get'' ''sys/status'' None None)
          = classified FMGBaseException ''bad url''"
    by blast
  then have r4: "fst (execute_request (serving ?c4) demo_client ''get'' ''sys/status'' None None)
          = Inr (JInt (- 3), error_payload ''API error'' ''bad url'')"
    by (simp add: classified_def)
  from classified_results [OF s, where lib = "serving ?c5" and self = demo_client
      and endpoint = "''sys/status''" and data = None and qp = None and c = ?c5 and kw = "[]"
      and cls = OtherException and details = "''boom''"] v [of ?c5] e5 k
  have "fst (execute_request (serving ?c5) demo_client ''get'' ''sys/status'' None None)
          = classified OtherException ''boom''"
    by blast
  then have r5: "fst (execute_request (serving ?c5) demo_client ''get'' ''sys/status'' None None)
          = Inr (JInt (- 4), error_payload ''Unexpected error'' ''boom'')"
    by (simp add: classified_def)
  from classified_results [OF s', where lib = "answering (JInt 0) (JStr ''up'')" and self = demo_client
      and endpoint = "''sys/status''" and data = "Some (JArr [JInt 1])" and qp = None and c = ?up]
    u1 u2 k'
  have r6: "\<exists>text. fst (execute_request (answering (JInt 0) (JStr ''up'')) demo_client ''add''
                   ''sys/status'' (Some (JArr [JInt 1])) None)
             = Inr (JInt (- 4), error_payload ''Unexpected error'' text)"
    by blast
  show ?thesis
    using s s' k k' neg u1 u2 n1 e3 e4(3) e5(2) r1 r2 r3 r4 r5 r6 r7
    by (intro conjI) assumption+
qed

text \<open>
  Claim C3 as stated fails: a device that answers with its own status -3 ("Object does
  not exist") is answered, no exception is raised, and the result has the negative
  status -3.
\<close>

theorem classified_results_counterexample:
  "fst (request_attempt (answering (JInt (- 3)) not_found_payload) demo_client ''get''
          ''/pm/config/adom/root/obj/firewall/address/none'' None None)
     = Inr (JInt (- 3), not_found_payload) \<and>
   fst (execute_request (answering (JInt (- 3)) not_found_payload) demo_client ''get''
          ''/pm/config/adom/root/obj/firewall/address/none'' None None)
     = Inr (JInt (- 3), not_found_payload) \<and>
   (- 3 :: int) < 0"
  by code_simp

section \<open>Properties of the table formatter\<close>

lemma collect_Inr_iff:
  "(\<exists>ys. collect f xs = Inr ys) = list_all (\<lambda>x. \<exists>y. f x = Inr y) xs"
  by (induction xs) (auto split: sum.splits)

lemma collect_Inl:
  "collect f xs = Inl e \<Longrightarrow> \<exists>x \<in> set xs. f x = Inl e"
  by (induction xs) (auto split: sum.splits)

lemma collect_item_name:
  "list_all is_dict xs \<Longrightarrow> collect item_name xs = Inr (map name_text xs)"
  by (induction xs)
     (auto simp: is_dict_def item_name_def name_text_def dict_get_def py_str_def
           split: json.splits option.splits)

lemma item_name_Inr_iff: "(\<exists>s. item_name v = Inr s) = is_dict v"
  by (cases v) (simp_all add: item_name_def is_dict_def)

lemma item_name_Inl: "item_name v = Inl e \<Longrightarrow> \<exists>m. e = Exn AttributeError m"
  by (cases v) (auto simp: item_name_def no_get_def)

lemma flatten_value_Inr_iff: "(\<exists>s. flatten_value v = Inr s) = flat_ok v"
proof (cases v)
  case (JArr xs)
  show ?thesis
  proof (cases xs)
    case Nil
    with JArr show ?thesis by (simp add: flatten_value_def flat_ok_def)
  next
    case (Cons x ys)
    show ?thesis
    proof (cases "first_is_named x")
      case False
      with JArr Cons show ?thesis by (simp add: flatten_value_def flat_ok_def)
    next
      case True
      have "(\<exists>s. flatten_value v = Inr s) = (\<exists>ns. collect item_name xs = Inr ns)"
        using JArr Cons True by (auto simp: flatten_value_def split: sum.splits)
      also have "\<dots> = list_all is_dict xs"
        by (simp add: collect_Inr_iff item_name_Inr_iff)
      finally show ?thesis using JArr Cons True by (simp add: flat_ok_def)
    qed
  qed
next
  case (JObj d)
  then show ?thesis
    by (auto simp: flatten_value_def flat_ok_def split: option.splits list.splits)
qed (simp_all add: flatten_value_def flat_ok_def)

lemma flatten_value_Inl: "flatten_value v = Inl e \<Longrightarrow> \<exists>m. e = Exn AttributeError m"
  by (auto simp: flatten_value_def split: json.splits list.splits if_splits sum.splits option.splits
      dest!: collect_Inl item_name_Inl)

lemma format_table_no_rows:
  "data_list_of v = Some [] \<Longrightarrow>
   format_table tab v mf mw = Inr ''No data to display in table format''"
  by (simp add: format_table_def)

text \<open>
  Claim C2, as amended. For a mapping given to \<open>format_table\<close> the candidate is the
  value under \<open>results\<close> if that is true for Python (a non-empty list, mapping or
  text, a number other than zero, \<open>True\<close>), else the value under \<open>data\<close> if that is
  true, else the value under \<open>items\<close> (\<open>None\<close> where the key is absent). A candidate
  that is a list is the row list, a candidate that is a mapping is wrapped as the one
  row, and with any other candidate the whole mapping is the one row. A row list with
  no row gives the text "No data to display in table format".
\<close>

theorem list_extraction:
  "(truthy (dict_get d ''results'' JNull) \<longrightarrow>
      data_list_of (JObj d) = Some (rows_from (JObj d) (dict_get d ''results'' JNull))) \<and>
   (\<not> truthy (dict_get d ''results'' JNull) \<and> truthy (dict_get d ''data'' JNull) \<longrightarrow>
      data_list_of (JObj d) = Some (rows_from (JObj d) (dict_get d ''data'' JNull))) \<and>
   (\<not> truthy (dict_get d ''results'' JNull) \<and> \<not> truthy (dict_get d ''data'' JNull) \<longrightarrow>
      data_list_of (JObj d) = Some (rows_from (JObj d) (dict_get d ''items'' JNull))) \<and>
   (data_list_of v = Some [] \<longrightarrow>
      format_table tab v mf mw = Inr ''No data to display in table format'')"
  by (auto simp: data_list_of_def rows_from_def py_or_def Let_def format_table_no_rows
           split: json.splits)

text \<open>
  A non-empty \<open>results\<close> beside \<open>data\<close>; a mapping under \<open>data\<close>; none of the three
  keys; and \<open>items\<close> with no row.
\<close>

theorem list_extraction_witness:
  "truthy (dict_get [(''results'', JArr [JInt 1]), (''data'', JArr [JInt 2])] ''results'' JNull) \<and>
   data_list_of (JObj [(''results'', JArr [JInt 1]), (''data'', JArr [JInt 2])]) = Some [JInt 1] \<and>
   \<not> truthy (dict_get [(''data'', JObj [(''a'', JInt 2)])] ''results'' JNull) \<and>
   truthy (dict_get [(''data'', JObj [(''a'', JInt 2)])] ''data'' JNull) \<and>
   data_list_of (JObj [(''data'', JObj [(''a'', JInt 2)])]) = Some [JObj [(''a'', JInt 2)]] \<and>
   \<not> truthy (dict_get [(''name'', JStr ''x'')] ''data'' JNull) \<and>
   data_list_of (JObj [(''name'', JStr ''x'')]) = Some [JObj [(''name'', JStr ''x'')]] \<and>
   data_list_of (JObj [(''items'', JArr [])]) = Some [] \<and>
   format_table plain_tab (JObj [(''items'', JArr [])]) 6 50
     = Inr ''No data to display in table format''"
proof -
  let ?d1 = "[(''results'', JArr [JInt 1]), (''data'', JArr [JInt 2])]"
  let ?d2 = "[(''data'', JObj [(''a'', JInt 2)])]"
  let ?d3 = "[(''name'', JStr ''x'')]"
  have a: "truthy (dict_get ?d1 ''results'' JNull)" by code_simp
  have a': "rows_from (JObj ?d1) (dict_get ?d1 ''results'' JNull) = [JInt 1]" by code_simp
  have b: "\<not> truthy (dict_get ?d2 ''results'' JNull) \<and> truthy (dict_get ?d2 ''data'' JNull)"
    by code_simp
  have b': "rows_from (JObj ?d2) (dict_get ?d2 ''data'' JNull) = [JObj [(''a'', JInt 2)]]"
    by code_simp
  have c: "\<not> truthy (dict_get ?d3 ''results'' JNull) \<and> \<not> truthy (dict_get ?d3 ''data'' JNull)"
    by code_simp
  have c': "rows_from (JObj ?d3) (dict_get ?d3 ''items'' JNull) = [JObj ?d3]" by code_simp
  have e: "data_list_of (JObj [(''items'', JArr [])]) = Some []" by code_simp
  from list_extraction [where d = ?d1] a a'
  have r1: "data_list_of (JObj ?d1) = Some [JInt 1]" by simp
  from list_extraction [where d = ?d2] b b'
  have r2: "data_list_of (JObj ?d2) = Some [JObj [(''a'', JInt 2)]]" by simp
  from list_extraction [where d = ?d3] c c'
  have r3: "data_list_of (JObj ?d3) = Some [JObj ?d3]" by simp
  from list_extraction [where v = "JObj [(''items'', JArr [])]" and tab = plain_tab and mf = 6 and mw = 50] e
  have r4: "format_table plain_tab (JObj [(''items'', JArr [])]) 6 50
     = Inr ''No data to display in table format''" by blast
  show ?thesis using a b c e r1 r2 r3 r4 by blast
qed

text \<open>
  Claim C2 as stated fails: an entry \<open>results\<close> that is present but empty is passed
  over for \<open>data\<close>, and alone it makes the whole mapping the one row instead of
  giving the "No data" text.
\<close>

theorem list_extraction_counterexample:
  "has_key [(''results'', JArr []), (''data'', JArr [JObj [(''x'', JInt 1)]])] ''results'' \<and>
   data_list_of (JObj [(''results'', JArr []), (''data'', JArr [JObj [(''x'', JInt 1)]])])
     = Some [JObj [(''x'', JInt 1)]] \<and>
   data_list_of (JObj [(''results'', JArr [])]) = Some [JObj [(''results'', JArr [])]] \<and>
   format_table plain_tab (JObj [(''results'', JArr [])]) 6 50
     \<noteq> Inr ''No data to display in table format''"
  by code_simp

text \<open>
  Claim C4, as amended. \<open>_flatten_value\<close> gives: "-" for \<open>None\<close> and for the empty
  list; for a list of mappings whose first element has a \<open>name\<close>, the string forms of
  the names joined by ", " (the empty text for a mapping without \<open>name\<close>); for a
  non-empty list whose first element is not a mapping with a \<open>name\<close>, the string forms
  of its elements joined by ", "; for a mapping with a \<open>name\<close>, the string form of
  that name; for a mapping of one entry that is not \<open>name\<close>, the string form of its
  value; for any other mapping without \<open>name\<close>, its own string form; for a truth
  value, number or text, its string form. So the mapping with the name \<open>obj1\<close> gives
  "obj1", the list of the mappings named \<open>a\<close> and \<open>b\<close> gives "a, b", and \<open>None\<close> gives "-".
\<close>

theorem flatten_value_cases:
  "flatten_value JNull = Inr ''-'' \<and>
   flatten_value (JArr []) = Inr ''-'' \<and>
   (first_is_named x \<and> list_all is_dict (x # xs) \<longrightarrow>
      flatten_value (JArr (x # xs)) = Inr (join '', '' (map name_text (x # xs)))) \<and>
   (\<not> first_is_named x \<longrightarrow>
      flatten_value (JArr (x # xs)) = Inr (join '', '' (map py_str (x # xs)))) \<and>
   (map_of d ''name'' = Some n \<longrightarrow> flatten_value (JObj d) = Inr (py_str n)) \<and>
   (map_of [(k, u)] ''name'' = None \<longrightarrow> flatten_value (JObj [(k, u)]) = Inr (py_str u)) \<and>
   (map_of d ''name'' = None \<and> length d \<noteq> 1 \<longrightarrow> flatten_value (JObj d) = Inr (py_str (JObj d))) \<and>
   flatten_value (JBool b) = Inr (py_str (JBool b)) \<and>
   flatten_value (JInt i) = Inr (py_str (JInt i)) \<and>
   flatten_value (JFloat r) = Inr (py_str (JFloat r)) \<and>
   flatten_value (JStr t) = Inr t \<and>
   flatten_value (JObj [(''name'', JStr ''obj1'')]) = Inr ''obj1'' \<and>
   flatten_value (JArr [JObj [(''name'', JStr ''a'')], JObj [(''name'', JStr ''b'')]]) = Inr ''a, b''"
proof (intro conjI impI)
  show "flatten_value (JArr (x # xs)) = Inr (join '', '' (map name_text (x # xs)))"
    if "first_is_named x \<and> list_all is_dict (x # xs)"
    using that collect_item_name [of "x # xs"] by (simp add: flatten_value_def)
  show "flatten_value (JObj d) = Inr (py_str (JObj d))"
    if "map_of d ''name'' = None \<and> length d \<noteq> 1"
    using that by (cases d; cases "tl d") (auto simp: flatten_value_def)
  show "flatten_value (JObj [(k, u)]) = Inr (py_str u)" if "map_of [(k, u)] ''name'' = None"
    using that by (simp add: flatten_value_def)
  show "flatten_value (JArr [JObj [(''name'', JStr ''a'')], JObj [(''name'', JStr ''b'')]]) = Inr ''a, b''"
    by (simp add: flatten_value_def first_is_named_def has_key_def item_name_def dict_get_def py_str_def)
qed (simp_all add: flatten_value_def py_str_def)

text \<open>One input for each case that has a condition.\<close>

theorem flatten_value_cases_witness:
  "first_is_named (JObj [(''name'', JStr ''a'')]) \<and>
   list_all is_dict [JObj [(''name'', JStr ''a'')], JObj [(''name'', JInt 7)]] \<and>
   flatten_value (JArr [JObj [(''name'', JStr ''a'')], JObj [(''name'', JInt 7)]]) = Inr ''a, 7'' \<and>
   \<not> first_is_named (JInt 1) \<and>
   flatten_value (JArr [JInt 1, JStr ''b'', JNull]) = Inr ''1, b, None'' \<and>
   map_of [(''id'', JInt 3), (''name'', JStr ''lan'')] ''name'' = Some (JStr ''lan'') \<and>
   flatten_value (JObj [(''id'', JInt 3), (''name'', JStr ''lan'')]) = Inr ''lan'' \<and>
   map_of [(''vdom'', JStr ''root'')] ''name'' = None \<and>
   flatten_value (JObj [(''vdom'', JStr ''root'')]) = Inr ''root'' \<and>
   map_of [(''a'', JInt 1), (''b'', JBool True)] ''name'' = None \<and>
   length [(''a'', JInt 1), (''b'', JBool True)] \<noteq> 1 \<and>
   flatten_value (JObj [(''a'', JInt 1), (''b'', JBool True)])
     = Inr (CHR ''{'' # squote # ''a'' @ squote # '': 1, '' @ squote # ''b'' @ squote # '': True}'')"
proof -
  let ?l1 = "[JObj [(''name'', JStr ''a'')], JObj [(''name'', JInt 7)]]"
  have a: "first_is_named (JObj [(''name'', JStr ''a'')]) \<and> list_all is_dict ?l1" by code_simp
  have b: "\<not> first_is_named (JInt 1)" by code_simp
  have c: "map_of [(''id'', JInt 3), (''name'', JStr ''lan'')] ''name'' = Some (JStr ''lan'')" by simp
  have d: "map_of [(''vdom'', JStr ''root'')] ''name'' = None" by simp
  have e: "map_of [(''a'', JInt 1), (''b'', JBool True)] ''name'' = None \<and>
           length [(''a'', JInt 1), (''b'', JBool True)] \<noteq> 1" by simp
  have n1: "join '', '' (map name_text ?l1) = ''a, 7''" by code_simp
  have n2: "join '', '' (map py_str [JInt 1, JStr ''b'', JNull]) = ''1, b, None''" by code_simp
  have n3: "py_str (JObj [(''a'', JInt 1), (''b'', JBool True)])
     = CHR ''{'' # squote # ''a'' @ squote # '': 1, '' @ squote # ''b'' @ squote # '': True}''"
    by code_simp
  from flatten_value_cases [where x = "JObj [(''name'', JStr ''a'')]" and xs = "[JObj [(''name'', JInt 7)]]"] a n1
  have r1: "flatten_value (JArr ?l1) = Inr ''a, 7''" by simp
  from flatten_value_cases [where x = "JInt 1" and xs = "[JStr ''b'', JNull]"] b n2
  have r2: "flatten_value (JArr [JInt 1, JStr ''b'', JNull]) = Inr ''1, b, None''" by simp
  from flatten_value_cases [where d = "[(''id'', JInt 3), (''name'', JStr ''lan'')]" and n = "JStr ''lan''"] c
  have r3: "flatten_value (JObj [(''id'', JInt 3), (''name'', JStr ''lan'')]) = Inr ''lan''"
    by (simp add: py_str_def)
  from flatten_value_cases [where k = "''vdom''" and u = "JStr ''root''"] d
  have r4: "flatten_value (JObj [(''vdom'', JStr ''root'')]) = Inr ''root''"
    by (simp add: py_str_def)
  from flatten_value_cases [where d = "[(''a'', JInt 1), (''b'', JBool True)]"] e n3
  have r5: "flatten_value (JObj [(''a'', JInt 1), (''b'', JBool True)])
     = Inr (CHR ''{'' # squote # ''a'' @ squote # '': 1, '' @ squote # ''b'' @ squote # '': True}'')"
    by simp
  show ?thesis using a b c d e r1 r2 r3 r4 r5 by blast
qed

text \<open>
  Claim C4 as stated fails: in a list whose first mapping has a \<open>name\<close> and whose
  second has none, not every element has a \<open>name\<close>, yet the result is the names ("a"
  and the empty text) and not the string forms of the elements.
\<close>

theorem flatten_value_counterexample:
  "\<not> list_all first_is_named [JObj [(''name'', JStr ''a'')], JObj [(''x'', JInt 1)]] \<and>
   flatten_value (JArr [JObj [(''name'', JStr ''a'')], JObj [(''x'', JInt 1)]]) = Inr ''a, '' \<and>
   flatten_value (JArr [JObj [(''name'', JStr ''a'')], JObj [(''x'', JInt 1)]])
     \<noteq> Inr (join '', '' (map py_str [JObj [(''name'', JStr ''a'')], JObj [(''x'', JInt 1)]]))"
  by code_simp

lemma bump_new: "k \<notin> fst ` set acc \<Longrightarrow> bump k acc = acc @ [(k, 1)]"
  by (induction acc) auto

lemma fold_bump_distinct:
  "distinct ks \<Longrightarrow> set ks \<inter> fst ` set acc = {} \<Longrightarrow>
   fold bump ks acc = acc @ map (\<lambda>k. (k, 1)) ks"
proof (induction ks arbitrary: acc)
  case Nil
  then show ?case by simp
next
  case (Cons k ks)
  have "bump k acc = acc @ [(k, 1)]" using Cons.prems by (simp add: bump_new)
  moreover have "set ks \<inter> fst ` set (acc @ [(k, 1)]) = {}" using Cons.prems by auto
  ultimately show ?case using Cons.IH [of "acc @ [(k, 1)]"] Cons.prems by simp
qed

lemma wide_keys_distinct: "distinct (map (\<lambda>i. replicate i CHR ''k'') [1..<1001])"
  by (simp add: distinct_map inj_on_def)

lemma py_take_length_min:
  "0 \<le> k \<Longrightarrow> length (py_take k xs) = min (nat k) (length xs)"
  by (simp add: py_take_def)

lemma wide_row_wf: "wf_json wide_row"
  using wide_keys_distinct by (auto simp: wide_row_def comp_def simp del: upt_Suc)

text \<open>
  Claim C5, where the code departs from it. With \<open>--table-max-fields 0\<close>, \<open>main\<close>
  passes 999 to \<open>format_table\<close>: of the 1000 keys of the one row of the response
  \<open>[wide_row]\<close>, all counted, only 999 become columns, so the number of fields is not
  unlimited. \<open>format_table\<close> itself, given 0, finds no field at all.
\<close>

theorem unlimited_fields_capped:
  "main_table plain_tab (JArr [wide_row]) 0 50 = format_table plain_tab (JArr [wide_row]) 999 50 \<and>
   data_list_of (JArr [wide_row]) = Some [wide_row] \<and>
   length (field_counts [wide_row]) = 1000 \<and>
   length (detect_fields (cli_max_fields 0) [wide_row]) = 999 \<and>
   detect_fields 0 [wide_row] = []"
proof -
  let ?ks = "map (\<lambda>i. replicate i CHR ''k'') [1..<1001]"
  have fc: "field_counts [wide_row] = map (\<lambda>k. (k, 1)) ?ks"
    unfolding field_counts_def wide_row_def
    using fold_bump_distinct [OF wide_keys_distinct, of "[]"]
    by (simp add: count_item_def comp_def del: upt_Suc)
  then have len: "length (field_counts [wide_row]) = 1000" by simp
  have "length (detect_fields 999 [wide_row]) = 999"
    by (simp add: detect_fields_def sorted_by_count_desc_def py_take_length_min len)
  moreover have "detect_fields 0 [wide_row] = []"
    by (simp add: detect_fields_def py_take_def)
  ultimately show ?thesis
    using len by (simp add: main_table_def cli_max_fields_def data_list_of_def)
qed

text \<open>
  The ranking of line 61: the counts fall along the ranked list, and keys with the same
  count keep the order in which they were first seen.
\<close>

lemma ranking_stable:
  "sorted (map (\<lambda>kc. - snd kc) (sorted_by_count_desc kcs)) \<and>
   filter (\<lambda>kc. snd kc = c) (sorted_by_count_desc kcs) = filter (\<lambda>kc. snd kc = c) kcs \<and>
   set (sorted_by_count_desc kcs) = set kcs \<and>
   length (sorted_by_count_desc kcs) = length kcs"
  using sort_key_stable [of "\<lambda>kc. - snd kc" "- c" kcs]
  by (simp add: sorted_by_count_desc_def)

text \<open>
  The truncation of lines 74-75 where it does what it is meant to do. For a width of
  at least 3, a flattened cell longer than the width is shown as its first width - 3
  characters followed by "...", which has exactly the width as its length; a cell no
  longer than the width, and every cell when the width is 0, is shown unchanged.
  \<open>format_table\<close> shows each flattened cell this way.
\<close>

lemma truncation_to_width:
  "(3 \<le> w \<and> w < int (length s) \<longrightarrow>
      truncate_cell w s = take (nat (w - 3)) s @ ''...'' \<and>
      int (length (truncate_cell w s)) = w) \<and>
   (int (length s) \<le> w \<longrightarrow> truncate_cell w s = s) \<and>
   truncate_cell 0 s = s \<and>
   (flatten_value (dict_get d field (JStr ''-'')) = Inr s \<longrightarrow>
      table_cell w (JObj d) field = Inr (truncate_cell w s))"
  by (auto simp: truncate_cell_def py_take_def table_cell_def)

text \<open>Width 5 on a cell of eight characters and on one of three.\<close>

lemma truncation_to_width_example:
  "(3::int) \<le> 5 \<and> 5 < int (length ''abcdefgh'') \<and>
   truncate_cell 5 ''abcdefgh'' = take (nat (5 - 3)) ''abcdefgh'' @ ''...'' \<and>
   int (length (truncate_cell 5 ''abcdefgh'')) = 5 \<and>
   int (length ''abc'') \<le> 5 \<and> truncate_cell 5 ''abc'' = ''abc'' \<and>
   flatten_value (dict_get [(''comment'', JStr ''abcdefgh'')] ''comment'' (JStr ''-'')) = Inr ''abcdefgh'' \<and>
   table_cell 5 (JObj [(''comment'', JStr ''abcdefgh'')]) ''comment'' = Inr (truncate_cell 5 ''abcdefgh'')"
proof -
  have a: "(3::int) \<le> 5 \<and> 5 < int (length ''abcdefgh'')" by simp
  have b: "int (length ''abc'') \<le> 5" by simp
  have c: "flatten_value (dict_get [(''comment'', JStr ''abcdefgh'')] ''comment'' (JStr ''-'')) = Inr ''abcdefgh''"
    by code_simp
  from truncation_to_width [where w = 5 and s = "''abcdefgh''" and d = "[(''comment'', JStr ''abcdefgh'')]"
      and field = "''comment''"] a c
  have d: "truncate_cell 5 ''abcdefgh'' = take (nat (5 - 3)) ''abcdefgh'' @ ''...'' \<and>
      int (length (truncate_cell 5 ''abcdefgh'')) = 5 \<and>
      table_cell 5 (JObj [(''comment'', JStr ''abcdefgh'')]) ''comment'' = Inr (truncate_cell 5 ''abcdefgh'')"
    by blast
  from truncation_to_width [where w = 5 and s = "''abc''"] b
  have e: "truncate_cell 5 ''abc'' = ''abc''" by blast
  show ?thesis using a b c d e by blast
qed

text \<open>
  Claim C6, where the code departs from it. With \<open>--table-max-width 2\<close> the cell
  \<open>abcdef\<close> is longer than the width, yet it loses its last character only and is
  shown as \<open>abcde...\<close>, eight characters instead of two: the slice of line 75 ends at
  \<open>max_width - 3\<close>, which is negative for the widths 1 and 2 and then counts from the
  end of the text.
\<close>

theorem truncation_width_two:
  "(0::int) < 2 \<and> int (length ''abcdef'') > 2 \<and>
   truncate_cell 2 ''abcdef'' = ''abcde...'' \<and> length (truncate_cell 2 ''abcdef'') = 8"
  by code_simp

lemma table_cell_Inr_iff:
  "(\<exists>s. table_cell mw item f = Inr s) =
   (case item of JObj d \<Rightarrow> flat_ok (dict_get d f (JStr ''-'')) | _ \<Rightarrow> False)"
proof (cases item)
  case (JObj d)
  have "(\<exists>s. table_cell mw item f = Inr s) = (\<exists>s. flatten_value (dict_get d f (JStr ''-'')) = Inr s)"
    using JObj by (auto simp: table_cell_def split: sum.splits)
  then show ?thesis using JObj by (simp add: flatten_value_Inr_iff)
qed (simp_all add: table_cell_def)

lemma table_cell_Inl: "table_cell mw item f = Inl e \<Longrightarrow> \<exists>m. e = Exn AttributeError m"
  by (cases item) (auto simp: table_cell_def no_get_def split: sum.splits dest: flatten_value_Inl)

lemma row_Inr_iff:
  "fs \<noteq> [] \<Longrightarrow> (\<exists>r. collect (table_cell mw item) fs = Inr r) = row_ok fs item"
  by (cases item; cases fs)
     (simp_all add: collect_Inr_iff table_cell_Inr_iff row_ok_def del: collect.simps)

lemma table_rows_Inr_iff:
  assumes "fs \<noteq> []"
  shows "(\<exists>rows. table_rows fs mw data_list = Inr rows) = list_all (row_ok fs) data_list"
proof -
  have "(\<exists>rows. table_rows fs mw data_list = Inr rows) =
        list_all (\<lambda>item. \<exists>r. collect (table_cell mw item) fs = Inr r) data_list"
    unfolding table_rows_def by (rule collect_Inr_iff)
  also have "\<dots> = list_all (\<lambda>item. row_ok fs item) data_list"
    by (simp only: row_Inr_iff [OF assms])
  finally show ?thesis .
qed

lemma table_rows_Inl: "table_rows fs mw data_list = Inl e \<Longrightarrow> \<exists>m. e = Exn AttributeError m"
  unfolding table_rows_def by (blast dest: collect_Inl table_cell_Inl)

lemma format_table_Inr_iff:
  "(\<exists>s. format_table tab v mf mw = Inr s) = renderable v mf"
proof (cases "data_list_of v")
  case None
  then show ?thesis by (simp add: format_table_def renderable_def)
next
  case (Some data_list)
  show ?thesis
  proof (cases "data_list = [] \<or> detect_fields mf data_list = []")
    case True
    with Some show ?thesis by (auto simp: format_table_def renderable_def Let_def)
  next
    case False
    then have "(\<exists>s. format_table tab v mf mw = Inr s) =
               (\<exists>rows. table_rows (detect_fields mf data_list) mw data_list = Inr rows)"
      using Some by (auto simp: format_table_def Let_def split: sum.splits)
    then show ?thesis
      using Some False by (simp add: table_rows_Inr_iff renderable_def)
  qed
qed

lemma format_table_Inl: "format_table tab v mf mw = Inl e \<Longrightarrow> \<exists>m. e = Exn AttributeError m"
  by (auto simp: format_table_def Let_def split: option.splits if_splits sum.splits
      dest: table_rows_Inl)

text \<open>
  Claim C10, as amended. \<open>format_table\<close> returns a text or raises
  \<open>AttributeError\<close> (which \<open>main\<close> catches at line 311). It returns a text exactly
  when the value is \<open>renderable\<close>: it has no row list, no row or no field, or every
  row is a mapping whose cells under the fields flatten. \<open>_flatten_value\<close> returns a
  text for every value but a list that starts with a mapping with a \<open>name\<close> and holds
  an element that is no mapping, where it raises \<open>AttributeError\<close>. A value that is
  neither a mapping nor a list gives the text "Table format not supported for response
  type: ..." with its type, and a row without an entry for a field shows "-" in that
  cell when the width is not negative.
\<close>

theorem format_table_returns_or_raises:
  "((\<exists>s. format_table tab v mf mw = Inr s) = renderable v mf) \<and>
   (\<not> renderable v mf \<longrightarrow> (\<exists>m. format_table tab v mf mw = Inl (Exn AttributeError m))) \<and>
   ((\<exists>s. flatten_value v = Inr s) = flat_ok v) \<and>
   (\<not> flat_ok v \<longrightarrow> (\<exists>m. flatten_value v = Inl (Exn AttributeError m))) \<and>
   (\<not> is_dict v \<and> v \<noteq> JArr (case v of JArr xs \<Rightarrow> xs | _ \<Rightarrow> []) \<longrightarrow>
      format_table tab v mf mw =
        Inr (''Table format not supported for response type: <class '' @
             squote # type_name v @ squote # ''>'')) \<and>
   (map_of d f = None \<and> 0 \<le> mw \<longrightarrow> table_cell mw (JObj d) f = Inr ''-'')"
proof (intro conjI impI)
  show "(\<exists>s. format_table tab v mf mw = Inr s) = renderable v mf"
    by (rule format_table_Inr_iff)
  show "\<exists>m. format_table tab v mf mw = Inl (Exn AttributeError m)" if "\<not> renderable v mf"
  proof (cases "format_table tab v mf mw")
    case (Inl e)
    then show ?thesis using format_table_Inl [OF Inl] by blast
  next
    case (Inr s)
    then show ?thesis using that format_table_Inr_iff [of tab v mf mw] by blast
  qed
  show "(\<exists>s. flatten_value v = Inr s) = flat_ok v" by (rule flatten_value_Inr_iff)
  show "\<exists>m. flatten_value v = Inl (Exn AttributeError m)" if "\<not> flat_ok v"
  proof (cases "flatten_value v")
    case (Inl e)
    then show ?thesis using flatten_value_Inl [OF Inl] by blast
  next
    case (Inr s)
    then show ?thesis using that flatten_value_Inr_iff [of v] by blast
  qed
  show "format_table tab v mf mw =
        Inr (''Table format not supported for response type: <class '' @
             squote # type_name v @ squote # ''>'')"
    if "\<not> is_dict v \<and> v \<noteq> JArr (case v of JArr xs \<Rightarrow> xs | _ \<Rightarrow> [])"
    using that by (cases v) (simp_all add: format_table_def data_list_of_def is_dict_def)
  show "table_cell mw (JObj d) f = Inr ''-''" if "map_of d f = None \<and> 0 \<le> mw"
    using that by (auto simp: table_cell_def dict_get_def flatten_value_def py_str_def truncate_cell_def)
qed

text \<open>
  A response with one row; a list with a row that is a number; a cell that is a list
  of a named mapping and a number; a number as the response; a row without the field.
\<close>

theorem format_table_returns_or_raises_witness:
  "renderable (JObj [(''results'', JArr [JObj [(''name'', JStr ''a''), (''subnet'', JStr ''10.0.0.0/24'')]])]) 6 \<and>
   (\<exists>s. format_table plain_tab
          (JObj [(''results'', JArr [JObj [(''name'', JStr ''a''), (''subnet'', JStr ''10.0.0.0/24'')]])])
          6 50 = Inr s) \<and>
   \<not> renderable (JArr [JObj [(''a'', JInt 1)], JInt 5]) 6 \<and>
   (\<exists>m. format_table plain_tab (JArr [JObj [(''a'', JInt 1)], JInt 5]) 6 50
          = Inl (Exn AttributeError m)) \<and>
   \<not> flat_ok (JArr [JObj [(''name'', JStr ''a'')], JInt 1]) \<and>
   (\<exists>m. flatten_value (JArr [JObj [(''name'', JStr ''a'')], JInt 1]) = Inl (Exn AttributeError m)) \<and>
   \<not> is_dict (JInt 5) \<and>
   format_table plain_tab (JInt 5) 6 50 =
     Inr (''Table format not supported for response type: <class '' @ squote # ''int'' @ squote # ''>'') \<and>
   map_of [(''a'', JInt 1)] ''b'' = None \<and> (0::int) \<le> 50 \<and>
   table_cell 50 (JObj [(''a'', JInt 1)]) ''b'' = Inr ''-''"
proof -
  let ?v1 = "JObj [(''results'', JArr [JObj [(''name'', JStr ''a''), (''subnet'', JStr ''10.0.0.0/24'')]])]"
  let ?v2 = "JArr [JObj [(''a'', JInt 1)], JInt 5]"
  let ?v3 = "JArr [JObj [(''name'', JStr ''a'')], JInt 1]"
  have a: "renderable ?v1 6" by code_simp
  have b: "\<not> renderable ?v2 6" by code_simp
  have c: "\<not> flat_ok ?v3" by code_simp
  have d: "\<not> is_dict (JInt 5) \<and> JInt 5 \<noteq> JArr (case JInt 5 of JArr xs \<Rightarrow> xs | _ \<Rightarrow> [])"
    by (simp add: is_dict_def)
  have d': "type_name (JInt 5) = ''int''" by code_simp
  have e: "map_of [(''a'', JInt 1)] ''b'' = None \<and> (0::int) \<le> 50" by simp
  from format_table_returns_or_raises [where tab = plain_tab and v = ?v1 and mf = 6 and mw = 50] a
  have r1: "\<exists>s. format_table plain_tab ?v1 6 50 = Inr s" by blast
  from format_table_returns_or_raises [where tab = plain_tab and v = ?v2 and mf = 6 and mw = 50] b
  have r2: "\<exists>m. format_table plain_tab ?v2 6 50 = Inl (Exn AttributeError m)" by blast
  from format_table_returns_or_raises [where v = ?v3] c
  have r3: "\<exists>m. flatten_value ?v3 = Inl (Exn AttributeError m)" by blast
  from format_table_returns_or_raises [where tab = plain_tab and v = "JInt 5" and mf = 6 and mw = 50
      and d = "[(''a'', JInt 1)]" and f = "''b''"] d d' e
  have r4: "format_table plain_tab (JInt 5) 6 50 =
     Inr (''Table format not supported for response type: <class '' @ squote # ''int'' @ squote # ''>'') \<and>
     table_cell 50 (JObj [(''a'', JInt 1)]) ''b'' = Inr ''-''" by simp
  show ?thesis using a b c d e r1 r2 r3 r4 by blast
qed

text \<open>
  Claim C10 as stated fails: \<open>_flatten_value\<close> and \<open>format_table\<close> raise
  \<open>AttributeError\<close> on these values, and at the width -1 the cell of a missing field
  is shown as "...".
\<close>

theorem format_table_total_counterexample:
  "flatten_value (JArr [JObj [(''name'', JStr ''a'')], JInt 1]) = Inl (no_get (JInt 1)) \<and>
   format_table plain_tab (JArr [JObj [(''a'', JInt 1)], JInt 5]) 6 50 = Inl (no_get (JInt 5)) \<and>
   table_cell (- 1) (JObj [(''a'', JInt 1)]) ''b'' = Inr ''...''"
  by code_simp

section \<open>Properties of \<open>main\<close>\<close>

lemma exit_status_int:
  "exit_status (JInt n) = (if n < 0 then 1 else if 400 \<le> n then 2 else 0)"
  by (simp add: exit_status_def)

lemma exit_status_str:
  "exit_status (JStr s) = (if lower s = ''success'' \<or> lower s = ''ok'' then 0 else 1)"
  by (simp add: exit_status_def)

lemma parse_args_fields:
  "parse_args cl = Some a \<Longrightarrow>
   c_method cl = Some (a_method a) \<and> a_method a \<in> set method_choices \<and>
   c_endpoint cl = Some (a_endpoint a) \<and> a_config a = c_config cl \<and> a_host a = c_host cl \<and>
   a_password a = c_password cl \<and> a_apikey a = c_apikey cl \<and> a_data a = c_data cl \<and>
   a_query a = c_query cl \<and> int_value 300 (c_timeout cl) = Some (a_timeout a)"
  by (auto simp: parse_args_def split: option.splits if_splits)

lemma parse_args_accepts:
  "c_method cl = Some m \<Longrightarrow> m \<in> set method_choices \<Longrightarrow> c_endpoint cl = Some e \<Longrightarrow>
   int_value 300 (c_timeout cl) = Some tmo \<Longrightarrow>
   int_value 50 (c_table_max_width cl) = Some wd \<Longrightarrow>
   int_value 6 (c_table_max_fields cl) = Some nf \<Longrightarrow>
   (case c_format cl of None \<Rightarrow> True | Some f \<Rightarrow> f \<in> set format_choices) \<Longrightarrow>
   \<exists>a. parse_args cl = Some a"
  by (auto simp: parse_args_def split: option.splits)

lemma choice_is_supported: "m \<in> set method_choices \<Longrightarrow> lower m \<in> set supported"
  by (auto simp: method_choices_def supported_def lower_def lower_char_def)

lemma execute_request_raises:
  assumes "lower m \<in> set supported" "fst (execute_request lib self m e d q) = Inl x"
  shows "\<exists>msg. x = Exn KeyboardInterrupt msg"
proof (cases "fst (request_attempt lib self (lower m) (normalize_endpoint e) d q)")
  case (Inr r)
  then show ?thesis using assms by (simp add: execute_request_supported)
next
  case (Inl y)
  obtain cls details where y: "y = Exn cls details" by (cases y)
  have "classified cls details = Inl x"
    using assms Inl y by (simp add: execute_request_supported handle_exception_classified)
  then show ?thesis by (auto simp: classified_def split: if_splits)
qed

lemma prepare_config:
  "config_read w a config \<Longrightarrow>
   prepare w a =
     (case host_of a config of
        None \<Rightarrow> Inl (Inr 1)
      | Some h \<Rightarrow>
          if h = [] then Inl (Inr 1)
          else if \<not> str_truthy (apikey_of a config) \<and> \<not> str_truthy (password_of a config)
            then Inl (Inr 1)
          else
            (case a_data a of
               None \<Rightarrow>
                 Inr (h, username_of a config, password_of a config, apikey_of a config, None)
             | Some text \<Rightarrow>
                 if text = []
                 then Inr (h, username_of a config, password_of a config,
                           apikey_of a config, None)
                 else
                   (case parse_data_argument (json_loads w) text of
                      Inl e \<Rightarrow>
                        (case e of Exn c _ \<Rightarrow>
                           if c = ValueError then Inl (Inr 1) else Inl (Inl e))
                    | Inr d \<Rightarrow>
                        Inr (h, username_of a config, password_of a config,
                             apikey_of a config, Some d))))"
  by (auto simp: config_read_def prepare_def split: option.splits if_splits)

lemma prepare_ready:
  assumes "config_read w a config" "host_of a config = Some h" "h \<noteq> []"
    "str_truthy (apikey_of a config) \<or> str_truthy (password_of a config)" "data_read w a d"
  shows "prepare w a = Inr (h, username_of a config, password_of a config, apikey_of a config, d)"
  using assms(2-5)
  by (auto simp: prepare_config [OF assms(1)] data_read_def parse_data_argument_def
           split: option.splits)

text \<open>
  Claim C9, as amended. The exit status is 2, with no connection made, when argparse
  rejects the command line: no \<open>-m\<close>, a verb that is none of the six choices, no
  \<open>-e\<close>, a text that is no integer for \<open>--timeout\<close>, \<open>--table-max-width\<close> or
  \<open>--table-max-fields\<close>, or a format that is none of the three choices; a line
  without these faults is accepted. For an accepted line the status is 1, again with
  no connection made, when the configuration file raises \<open>FileNotFoundError\<close> or
  \<open>ValueError\<close>, when no host is given, when neither API key nor password is given,
  or when the request data is not JSON. Otherwise the request is made and the status
  follows from what \<open>execute_request\<close> gives: for a returned pair it is
  \<open>exit_status\<close> of its status, which is 1 for a negative integer, 2 for an integer
  of at least 400, 0 for an integer from 0 to 399, 0 for a text that is \<open>success\<close> or
  \<open>ok\<close> in lower case and 1 for any other text; the only exception that leaves
  \<open>execute_request\<close> there is \<open>KeyboardInterrupt\<close>, and the status is then 130.
\<close>

theorem exit_code_by_status:
  "(c_method cl = None \<longrightarrow> main w cl = (Inr 2, [])) \<and>
   (c_method cl = Some m \<and> m \<notin> set method_choices \<longrightarrow> main w cl = (Inr 2, [])) \<and>
   (c_endpoint cl = None \<longrightarrow> main w cl = (Inr 2, [])) \<and>
   (c_timeout cl = NotInt t \<or> c_table_max_width cl = NotInt t \<or> c_table_max_fields cl = NotInt t
      \<longrightarrow> main w cl = (Inr 2, [])) \<and>
   (c_format cl = Some f \<and> f \<notin> set format_choices \<longrightarrow> main w cl = (Inr 2, [])) \<and>
   (c_method cl = Some m \<and> m \<in> set method_choices \<and> c_endpoint cl = Some e \<and>
    int_value 300 (c_timeout cl) = Some tmo \<and> int_value 50 (c_table_max_width cl) = Some wd \<and>
    int_value 6 (c_table_max_fields cl) = Some nf \<and>
    (case c_format cl of None \<Rightarrow> True | Some f \<Rightarrow> f \<in> set format_choices) \<longrightarrow>
      (\<exists>a'. parse_args cl = Some a')) \<and>
   (parse_args cl = Some a \<longrightarrow>
      c_method cl = Some (a_method a) \<and> a_method a \<in> set method_choices \<and>
      c_endpoint cl = Some (a_endpoint a) \<and> a_config a = c_config cl \<and> a_host a = c_host cl \<and>
      a_password a = c_password cl \<and> a_apikey a = c_apikey cl \<and> a_data a = c_data cl \<and>
      a_query a = c_query cl \<and> int_value 300 (c_timeout cl) = Some (a_timeout a)) \<and>
   (parse_args cl = Some a \<and> a_config a = Some path \<and> path \<noteq> [] \<and>
    load_config_file w path = Inl (Exn c msg) \<and> (c = FileNotFoundError \<or> c = ValueError) \<longrightarrow>
      main w cl = (Inr 1, [])) \<and>
   (parse_args cl = Some a \<and> config_read w a config \<and> \<not> str_truthy (host_of a config) \<longrightarrow>
      main w cl = (Inr 1, [])) \<and>
   (parse_args cl = Some a \<and> config_read w a config \<and>
    \<not> str_truthy (apikey_of a config) \<and> \<not> str_truthy (password_of a config) \<longrightarrow>
      main w cl = (Inr 1, [])) \<and>
   (parse_args cl = Some a \<and> config_read w a config \<and>
    a_data a = Some raw \<and> raw \<noteq> [] \<and> json_loads w raw = Inl err \<longrightarrow>
      main w cl = (Inr 1, [])) \<and>
   (parse_args cl = Some a \<and> config_read w a config \<and> host_of a config = Some h \<and> h \<noteq> [] \<and>
    (str_truthy (apikey_of a config) \<or> str_truthy (password_of a config)) \<and>
    data_read w a d \<longrightarrow>
      (\<exists>self.
         new_client h (Some (username_of a config)) (password_of a config) (apikey_of a config)
           (\<not> a_no_ssl a) (a_verify_ssl a) (a_timeout a) (a_debug a) = Inr self \<and>
         fst (main w cl) =
           (case fst (execute_request (fortimanager w) self (a_method a) (a_endpoint a) d
                        (a_query a)) of
              Inr r \<Rightarrow> Inr (exit_status (fst r))
            | Inl x \<Rightarrow> Inr 130) \<and>
         (\<forall>x. fst (execute_request (fortimanager w) self (a_method a) (a_endpoint a) d
                      (a_query a)) = Inl x
               \<longrightarrow> (\<exists>why. x = Exn KeyboardInterrupt why)))) \<and>
   (n < 0 \<longrightarrow> exit_status (JInt n) = 1) \<and>
   (400 \<le> n \<longrightarrow> exit_status (JInt n) = 2) \<and>
   (0 \<le> n \<and> n < 400 \<longrightarrow> exit_status (JInt n) = 0) \<and>
   (lower s = ''success'' \<or> lower s = ''ok'' \<longrightarrow> exit_status (JStr s) = 0) \<and>
   (lower s \<noteq> ''success'' \<and> lower s \<noteq> ''ok'' \<longrightarrow> exit_status (JStr s) = 1)"
proof -
  have rej: "main w cl = (Inr 2, [])" if "parse_args cl = None"
    using that by (simp add: main_def)
  have a1: "main w cl = (Inr 2, [])" if "c_method cl = None"
    using that by (intro rej) (simp add: parse_args_def)
  have a2: "main w cl = (Inr 2, [])" if "c_method cl = Some m \<and> m \<notin> set method_choices"
    using that by (intro rej) (simp add: parse_args_def)
  have a3: "main w cl = (Inr 2, [])" if "c_endpoint cl = None"
    using that by (intro rej) (simp add: parse_args_def split: option.splits)
  have a4: "main w cl = (Inr 2, [])"
    if "c_timeout cl = NotInt t \<or> c_table_max_width cl = NotInt t \<or> c_table_max_fields cl = NotInt t"
    using that by (intro rej) (auto simp: parse_args_def int_value_def split: option.splits)
  have a5: "main w cl = (Inr 2, [])" if "c_format cl = Some f \<and> f \<notin> set format_choices"
    using that by (intro rej) (auto simp: parse_args_def split: option.splits)
  have a6: "\<exists>a'. parse_args cl = Some a'"
    if "c_method cl = Some m \<and> m \<in> set method_choices \<and> c_endpoint cl = Some e \<and>
      int_value 300 (c_timeout cl) = Some tmo \<and> int_value 50 (c_table_max_width cl) = Some wd \<and>
      int_value 6 (c_table_max_fields cl) = Some nf \<and>
      (case c_format cl of None \<Rightarrow> True | Some f \<Rightarrow> f \<in> set format_choices)"
    using that parse_args_accepts [of cl m e tmo wd nf] by blast
  have body: "main w cl = main_body w a" if "parse_args cl = Some a"
    using that by (simp add: main_def)
  have b1: "main w cl = (Inr 1, [])"
    if "parse_args cl = Some a \<and> a_config a = Some path \<and> path \<noteq> [] \<and>
        load_config_file w path = Inl (Exn c msg) \<and> (c = FileNotFoundError \<or> c = ValueError)"
    using that by (auto simp: body main_body_def prepare_def)
  have early: "main w cl = (Inr 1, [])"
    if "parse_args cl = Some a" "prepare w a = Inl (Inr 1)"
    using that by (simp add: body main_body_def)
  have b2: "main w cl = (Inr 1, [])"
    if "parse_args cl = Some a \<and> config_read w a config \<and> \<not> str_truthy (host_of a config)"
    using that
    by (intro early) (auto simp: prepare_config str_truthy_def split: option.splits)
  have b3: "main w cl = (Inr 1, [])"
    if "parse_args cl = Some a \<and> config_read w a config \<and>
        \<not> str_truthy (apikey_of a config) \<and> \<not> str_truthy (password_of a config)"
    using that
    by (intro early) (auto simp: prepare_config split: option.splits)
  have b4: "main w cl = (Inr 1, [])"
    if "parse_args cl = Some a \<and> config_read w a config \<and>
        a_data a = Some raw \<and> raw \<noteq> [] \<and> json_loads w raw = Inl err"
    using that
    by (intro early) (auto simp: prepare_config parse_data_argument_def split: option.splits)
  have run: "\<exists>self.
         new_client h (Some (username_of a config)) (password_of a config) (apikey_of a config)
           (\<not> a_no_ssl a) (a_verify_ssl a) (a_timeout a) (a_debug a) = Inr self \<and>
         fst (main w cl) =
           (case fst (execute_request (fortimanager w) self (a_method a) (a_endpoint a) d
                        (a_query a)) of
              Inr r \<Rightarrow> Inr (exit_status (fst r))
            | Inl x \<Rightarrow> Inr 130) \<and>
         (\<forall>x. fst (execute_request (fortimanager w) self (a_method a) (a_endpoint a) d
                      (a_query a)) = Inl x
               \<longrightarrow> (\<exists>why. x = Exn KeyboardInterrupt why))"
    if h: "parse_args cl = Some a \<and> config_read w a config \<and> host_of a config = Some h \<and>
        h \<noteq> [] \<and> (str_truthy (apikey_of a config) \<or> str_truthy (password_of a config)) \<and>
        data_read w a d"
  proof -
    from h have p: "prepare w a =
        Inr (h, username_of a config, password_of a config, apikey_of a config, d)"
      by (intro prepare_ready) simp_all
    from h obtain self where self:
      "new_client h (Some (username_of a config)) (password_of a config) (apikey_of a config)
           (\<not> a_no_ssl a) (a_verify_ssl a) (a_timeout a) (a_debug a) = Inr self"
      by (auto simp: new_client_def)
    let ?res = "fst (execute_request (fortimanager w) self (a_method a) (a_endpoint a) d (a_query a))"
    have sup: "lower (a_method a) \<in> set supported"
      using h parse_args_fields [of cl a] by (simp add: choice_is_supported)
    have ki: "\<exists>why. x = Exn KeyboardInterrupt why" if "?res = Inl x" for x
      using execute_request_raises [OF sup that] .
    have "fst (main w cl) = (case ?res of Inr r \<Rightarrow> Inr (exit_status (fst r)) | Inl x \<Rightarrow> Inr 130)"
    proof (cases ?res)
      case (Inr r)
      then show ?thesis using h p self
        by (simp add: body main_body_def try_block_def Let_def)
    next
      case (Inl x)
      with ki obtain why where "x = Exn KeyboardInterrupt why" by blast
      with Inl show ?thesis using h p self
        by (simp add: body main_body_def try_block_def Let_def main_except_def)
    qed
    with self ki show ?thesis by blast
  qed
  have fields: "c_method cl = Some (a_method a) \<and> a_method a \<in> set method_choices \<and>
      c_endpoint cl = Some (a_endpoint a) \<and> a_config a = c_config cl \<and> a_host a = c_host cl \<and>
      a_password a = c_password cl \<and> a_apikey a = c_apikey cl \<and> a_data a = c_data cl \<and>
      a_query a = c_query cl \<and> int_value 300 (c_timeout cl) = Some (a_timeout a)"
    if "parse_args cl = Some a"
    using that by (rule parse_args_fields)
  have st: "(n < 0 \<longrightarrow> exit_status (JInt n) = 1) \<and>
   (400 \<le> n \<longrightarrow> exit_status (JInt n) = 2) \<and>
   (0 \<le> n \<and> n < 400 \<longrightarrow> exit_status (JInt n) = 0) \<and>
   (lower s = ''success'' \<or> lower s = ''ok'' \<longrightarrow> exit_status (JStr s) = 0) \<and>
   (lower s \<noteq> ''success'' \<and> lower s \<noteq> ''ok'' \<longrightarrow> exit_status (JStr s) = 1)"
    by (simp add: exit_status_int exit_status_str)
  show ?thesis
    by (rule conjI, (rule impI, erule a1),
        rule conjI, (rule impI, erule a2),
        rule conjI, (rule impI, erule a3),
        rule conjI, (rule impI, erule a4),
        rule conjI, (rule impI, erule a5),
        rule conjI, (rule impI, erule a6),
        rule conjI, (rule impI, erule fields),
        rule conjI, (rule impI, erule b1),
        rule conjI, (rule impI, erule b2),
        rule conjI, (rule impI, erule b3),
        rule conjI, (rule impI, erule b4),
        rule conjI, (rule impI, erule run),
        rule st)
qed

text \<open>
  The verb \<open>foo\<close>; a timeout that is no number; a configuration file that does not
  exist; no host; no secret; request data that is not JSON; a device answering 404; a
  login interrupted by the user; and one status of each kind.
\<close>

theorem exit_code_by_status_witness:
  "c_method (demo_cli\<lparr>c_method := Some ''foo''\<rparr>) = Some ''foo'' \<and>
   ''foo'' \<notin> set method_choices \<and>
   main (demo_world (answering (JInt 0) JNull)) (demo_cli\<lparr>c_method := Some ''foo''\<rparr>)
     = (Inr 2, []) \<and>
   c_timeout (demo_cli\<lparr>c_timeout := NotInt ''soon''\<rparr>) = NotInt ''soon'' \<and>
   main (demo_world (answering (JInt 0) JNull)) (demo_cli\<lparr>c_timeout := NotInt ''soon''\<rparr>)
     = (Inr 2, []) \<and>
   parse_args demo_cli = Some demo_args \<and>
   parse_args (demo_cli\<lparr>c_config := Some ''fmg.ini''\<rparr>)
     = Some (demo_args\<lparr>a_config := Some ''fmg.ini''\<rparr>) \<and>
   load_config_file (demo_world (answering (JInt 0) JNull)) ''fmg.ini''
     = Inl (Exn FileNotFoundError ''Configuration file not found: fmg.ini'') \<and>
   main (demo_world (answering (JInt 0) JNull)) (demo_cli\<lparr>c_config := Some ''fmg.ini''\<rparr>)
     = (Inr 1, []) \<and>
   parse_args (demo_cli\<lparr>c_host := None\<rparr>) = Some (demo_args\<lparr>a_host := None\<rparr>) \<and>
   config_read (demo_world (answering (JInt 0) JNull)) (demo_args\<lparr>a_host := None\<rparr>) [] \<and>
   \<not> str_truthy (host_of (demo_args\<lparr>a_host := None\<rparr>) []) \<and>
   main (demo_world (answering (JInt 0) JNull)) (demo_cli\<lparr>c_host := None\<rparr>) = (Inr 1, []) \<and>
   parse_args (demo_cli\<lparr>c_password := None\<rparr>) = Some (demo_args\<lparr>a_password := None\<rparr>) \<and>
   \<not> str_truthy (apikey_of (demo_args\<lparr>a_password := None\<rparr>) []) \<and>
   \<not> str_truthy (password_of (demo_args\<lparr>a_password := None\<rparr>) []) \<and>
   main (demo_world (answering (JInt 0) JNull)) (demo_cli\<lparr>c_password := None\<rparr>) = (Inr 1, []) \<and>
   parse_args (demo_cli\<lparr>c_data := Some ''{''\<rparr>) = Some (demo_args\<lparr>a_data := Some ''{''\<rparr>) \<and>
   json_loads (demo_world (answering (JInt 0) JNull)) ''{''
     = Inl ''Expecting value: line 1 column 1 (char 0)'' \<and>
   main (demo_world (answering (JInt 0) JNull)) (demo_cli\<lparr>c_data := Some ''{''\<rparr>) = (Inr 1, []) \<and>
   config_read (demo_world (answering (JInt 404) JNull)) demo_args [] \<and>
   host_of demo_args [] = Some ''10.0.0.1'' \<and>
   str_truthy (password_of demo_args []) \<and>
   data_read (demo_world (answering (JInt 404) JNull)) demo_args None \<and>
   (400::int) \<le> 404 \<and>
   fst (main (demo_world (answering (JInt 404) JNull)) demo_cli) = Inr 2 \<and>
   fst (main (demo_world (login_raising (Exn KeyboardInterrupt []))) demo_cli) = Inr 130 \<and>
   (- 1 :: int) < 0 \<and> exit_status (JInt (- 1)) = 1 \<and>
   (0::int) \<le> 0 \<and> (0::int) < 400 \<and> exit_status (JInt 0) = 0 \<and>
   lower ''OK'' = ''ok'' \<and> exit_status (JStr ''OK'') = 0 \<and>
   lower ''failed'' \<noteq> ''success'' \<and> lower ''failed'' \<noteq> ''ok'' \<and>
   exit_status (JStr ''failed'') = 1"
proof -
  let ?w = "demo_world (answering (JInt 0) JNull)"
  let ?w1 = "demo_world (answering (JInt 404) JNull)"
  let ?w2 = "demo_world (login_raising (Exn KeyboardInterrupt []))"
  have m1: "c_method (demo_cli\<lparr>c_method := Some ''foo''\<rparr>) = Some ''foo'' \<and>
            ''foo'' \<notin> set method_choices"
    by code_simp
  from exit_code_by_status [where cl = "demo_cli\<lparr>c_method := Some ''foo''\<rparr>" and m = "''foo''" and w = "demo_world (answering (JInt 0) JNull)", THEN conjunct2, THEN conjunct1] m1
  have r1: "main ?w (demo_cli\<lparr>c_method := Some ''foo''\<rparr>) = (Inr 2, [])" by (rule mp)
  have m2: "c_timeout (demo_cli\<lparr>c_timeout := NotInt ''soon''\<rparr>) = NotInt ''soon''" by simp
  then have m2': "c_timeout (demo_cli\<lparr>c_timeout := NotInt ''soon''\<rparr>) = NotInt ''soon'' \<or>
      c_table_max_width (demo_cli\<lparr>c_timeout := NotInt ''soon''\<rparr>) = NotInt ''soon'' \<or>
      c_table_max_fields (demo_cli\<lparr>c_timeout := NotInt ''soon''\<rparr>) = NotInt ''soon''"
    by (rule disjI1)
  from exit_code_by_status [where cl = "demo_cli\<lparr>c_timeout := NotInt ''soon''\<rparr>" and t = "''soon''" and w = "demo_world (answering (JInt 0) JNull)", THEN conjunct2, THEN conjunct2, THEN conjunct2, THEN conjunct1] m2'
  have r2: "main ?w (demo_cli\<lparr>c_timeout := NotInt ''soon''\<rparr>) = (Inr 2, [])" by (rule mp)
  have p0: "parse_args demo_cli = Some demo_args" by code_simp
  have p1: "parse_args (demo_cli\<lparr>c_config := Some ''fmg.ini''\<rparr>)
              = Some (demo_args\<lparr>a_config := Some ''fmg.ini''\<rparr>)" by code_simp
  have l1: "load_config_file ?w ''fmg.ini''
              = Inl (Exn FileNotFoundError ''Configuration file not found: fmg.ini'')"
    by code_simp
  have ante3: "parse_args (demo_cli\<lparr>c_config := Some ''fmg.ini''\<rparr>)
        = Some (demo_args\<lparr>a_config := Some ''fmg.ini''\<rparr>) \<and>
      a_config (demo_args\<lparr>a_config := Some ''fmg.ini''\<rparr>) = Some ''fmg.ini'' \<and>
      ''fmg.ini'' \<noteq> [] \<and>
      load_config_file ?w ''fmg.ini''
        = Inl (Exn FileNotFoundError ''Configuration file not found: fmg.ini'') \<and>
      (FileNotFoundError = FileNotFoundError \<or> FileNotFoundError = ValueError)"
    using p1 l1 by simp
  from exit_code_by_status [where cl = "demo_cli\<lparr>c_config := Some ''fmg.ini''\<rparr>" and a = "demo_args\<lparr>a_config := Some ''fmg.ini''\<rparr>" and path = "''fmg.ini''" and c = FileNotFoundError and msg = "''Configuration file not found: fmg.ini''" and w = "demo_world (answering (JInt 0) JNull)", THEN conjunct2, THEN conjunct2, THEN conjunct2, THEN conjunct2, THEN conjunct2, THEN conjunct2, THEN conjunct2, THEN conjunct1] ante3
  have r3: "main ?w (demo_cli\<lparr>c_config := Some ''fmg.ini''\<rparr>) = (Inr 1, [])" by (rule mp)
  have p2: "parse_args (demo_cli\<lparr>c_host := None\<rparr>) = Some (demo_args\<lparr>a_host := None\<rparr>)"
    by code_simp
  have h2: "config_read ?w (demo_args\<lparr>a_host := None\<rparr>) [] \<and>
            \<not> str_truthy (host_of (demo_args\<lparr>a_host := None\<rparr>) [])" by code_simp
  from p2 h2 have ante4: "parse_args (demo_cli\<lparr>c_host := None\<rparr>) = Some (demo_args\<lparr>a_host := None\<rparr>) \<and>
      config_read ?w (demo_args\<lparr>a_host := None\<rparr>) [] \<and>
      \<not> str_truthy (host_of (demo_args\<lparr>a_host := None\<rparr>) [])" by (rule conjI)
  from exit_code_by_status [where cl = "demo_cli\<lparr>c_host := None\<rparr>" and a = "demo_args\<lparr>a_host := None\<rparr>" and config = "[]" and w = "demo_world (answering (JInt 0) JNull)", THEN conjunct2, THEN conjunct2, THEN conjunct2, THEN conjunct2, THEN conjunct2, THEN conjunct2, THEN conjunct2, THEN conjunct2, THEN conjunct1] ante4
  have r4: "main ?w (demo_cli\<lparr>c_host := None\<rparr>) = (Inr 1, [])" by (rule mp)
  have p3: "parse_args (demo_cli\<lparr>c_password := None\<rparr>) = Some (demo_args\<lparr>a_password := None\<rparr>)"
    by code_simp
  have h3: "config_read ?w (demo_args\<lparr>a_password := None\<rparr>) [] \<and>
            \<not> str_truthy (apikey_of (demo_args\<lparr>a_password := None\<rparr>) []) \<and>
            \<not> str_truthy (password_of (demo_args\<lparr>a_password := None\<rparr>) [])" by code_simp
  from p3 h3 have ante5: "parse_args (demo_cli\<lparr>c_password := None\<rparr>) = Some (demo_args\<lparr>a_password := None\<rparr>) \<and>
      config_read ?w (demo_args\<lparr>a_password := None\<rparr>) [] \<and>
      \<not> str_truthy (apikey_of (demo_args\<lparr>a_password := None\<rparr>) []) \<and>
      \<not> str_truthy (password_of (demo_args\<lparr>a_password := None\<rparr>) [])" by (rule conjI)
  from exit_code_by_status [where cl = "demo_cli\<lparr>c_password := None\<rparr>" and a = "demo_args\<lparr>a_password := None\<rparr>" and config = "[]" and w = "demo_world (answering (JInt 0) JNull)", THEN conjunct2, THEN conjunct2, THEN conjunct2, THEN conjunct2, THEN conjunct2, THEN conjunct2, THEN conjunct2, THEN conjunct2, THEN conjunct2, THEN conjunct1] ante5
  have r5: "main ?w (demo_cli\<lparr>c_password := None\<rparr>) = (Inr 1, [])" by (rule mp)
  have p4: "parse_args (demo_cli\<lparr>c_data := Some ''{''\<rparr>) = Some (demo_args\<lparr>a_data := Some ''{''\<rparr>)"
    by code_simp
  have h4: "config_read ?w (demo_args\<lparr>a_data := Some ''{''\<rparr>) [] \<and>
            a_data (demo_args\<lparr>a_data := Some ''{''\<rparr>) = Some ''{'' \<and> ''{'' \<noteq> [] \<and>
            json_loads ?w ''{'' = Inl ''Expecting value: line 1 column 1 (char 0)''"
    by code_simp
  from p4 h4 have ante6: "parse_args (demo_cli\<lparr>c_data := Some ''{''\<rparr>) = Some (demo_args\<lparr>a_data := Some ''{''\<rparr>) \<and>
      config_read ?w (demo_args\<lparr>a_data := Some ''{''\<rparr>) [] \<and>
      a_data (demo_args\<lparr>a_data := Some ''{''\<rparr>) = Some ''{'' \<and> ''{'' \<noteq> [] \<and>
      json_loads ?w ''{'' = Inl ''Expecting value: line 1 column 1 (char 0)''" by (rule conjI)
  from exit_code_by_status [where cl = "demo_cli\<lparr>c_data := Some ''{''\<rparr>" and a = "demo_args\<lparr>a_data := Some ''{''\<rparr>" and config = "[]" and raw = "''{''" and err = "''Expecting value: line 1 column 1 (char 0)''" and w = "demo_world (answering (JInt 0) JNull)", THEN conjunct2, THEN conjunct2, THEN conjunct2, THEN conjunct2, THEN conjunct2, THEN conjunct2, THEN conjunct2, THEN conjunct2, THEN conjunct2, THEN conjunct2, THEN conjunct1] ante6
  have r6: "main ?w (demo_cli\<lparr>c_data := Some ''{''\<rparr>) = (Inr 1, [])" by (rule mp)
  have g: "config_read w' demo_args [] \<and> host_of demo_args [] = Some ''10.0.0.1'' \<and>
           ''10.0.0.1'' \<noteq> [] \<and>
           (str_truthy (apikey_of demo_args []) \<or> str_truthy (password_of demo_args [])) \<and>
           data_read w' demo_args None" for w'
    by (simp add: config_read_def data_read_def demo_args_def host_of_def password_of_def
          str_or_def str_truthy_def)
  have g': "str_truthy (password_of demo_args [])" by code_simp
  have nc: "new_client ''10.0.0.1'' (Some (username_of demo_args [])) (password_of demo_args [])
              (apikey_of demo_args []) (\<not> a_no_ssl demo_args) (a_verify_ssl demo_args)
              (a_timeout demo_args) (a_debug demo_args) = Inr demo_client"
    by code_simp
  have e1: "fst (execute_request (fortimanager ?w1) demo_client (a_method demo_args)
                   (a_endpoint demo_args) None (a_query demo_args)) = Inr (JInt 404, JNull)"
    by code_simp
  have e2: "fst (execute_request (fortimanager ?w2) demo_client (a_method demo_args)
                   (a_endpoint demo_args) None (a_query demo_args)) = Inl (Exn KeyboardInterrupt [])"
    by code_simp
  have big: "(400::int) \<le> 404" by simp
  from p0 g [of ?w1] have ante7: "parse_args demo_cli = Some demo_args \<and>
      config_read ?w1 demo_args [] \<and> host_of demo_args [] = Some ''10.0.0.1'' \<and>
      ''10.0.0.1'' \<noteq> [] \<and>
      (str_truthy (apikey_of demo_args []) \<or> str_truthy (password_of demo_args [])) \<and>
      data_read ?w1 demo_args None" by (rule conjI)
  from exit_code_by_status [where cl = demo_cli and a = demo_args and config = "[]" and h = "''10.0.0.1''" and d = None and w = "demo_world (answering (JInt 404) JNull)", THEN conjunct2, THEN conjunct2, THEN conjunct2, THEN conjunct2, THEN conjunct2, THEN conjunct2, THEN conjunct2, THEN conjunct2, THEN conjunct2, THEN conjunct2, THEN conjunct2, THEN conjunct1] ante7
  have "\<exists>self.
      new_client ''10.0.0.1'' (Some (username_of demo_args [])) (password_of demo_args [])
        (apikey_of demo_args []) (\<not> a_no_ssl demo_args) (a_verify_ssl demo_args)
        (a_timeout demo_args) (a_debug demo_args) = Inr self \<and>
      fst (main ?w1 demo_cli) =
        (case fst (execute_request (fortimanager ?w1) self (a_method demo_args)
                     (a_endpoint demo_args) None (a_query demo_args)) of
           Inr r \<Rightarrow> Inr (exit_status (fst r)) | Inl x \<Rightarrow> Inr 130) \<and>
      (\<forall>x. fst (execute_request (fortimanager ?w1) self (a_method demo_args)
                   (a_endpoint demo_args) None (a_query demo_args)) = Inl x
            \<longrightarrow> (\<exists>why. x = Exn KeyboardInterrupt why))"
    by (rule mp)
  then obtain self1 where
    "new_client ''10.0.0.1'' (Some (username_of demo_args [])) (password_of demo_args [])
              (apikey_of demo_args []) (\<not> a_no_ssl demo_args) (a_verify_ssl demo_args)
              (a_timeout demo_args) (a_debug demo_args) = Inr self1"
    "fst (main ?w1 demo_cli) =
       (case fst (execute_request (fortimanager ?w1) self1 (a_method demo_args)
                    (a_endpoint demo_args) None (a_query demo_args)) of
          Inr r \<Rightarrow> Inr (exit_status (fst r)) | Inl x \<Rightarrow> Inr 130)"
    by (elim exE conjE)
  with nc e1 have "fst (main ?w1 demo_cli) = Inr (exit_status (JInt 404))" by simp
  moreover from exit_code_by_status [where n = 404, THEN conjunct2, THEN conjunct2, THEN conjunct2, THEN conjunct2, THEN conjunct2, THEN conjunct2, THEN conjunct2, THEN conjunct2, THEN conjunct2, THEN conjunct2, THEN conjunct2, THEN conjunct2, THEN conjunct2, THEN conjunct1] big
  have "exit_status (JInt 404) = 2" by (rule mp)
  ultimately have r7: "fst (main ?w1 demo_cli) = Inr 2" by simp
  from p0 g [of ?w2] have ante8: "parse_args demo_cli = Some demo_args \<and>
      config_read ?w2 demo_args [] \<and> host_of demo_args [] = Some ''10.0.0.1'' \<and>
      ''10.0.0.1'' \<noteq> [] \<and>
      (str_truthy (apikey_of demo_args []) \<or> str_truthy (password_of demo_args [])) \<and>
      data_read ?w2 demo_args None" by (rule conjI)
  from exit_code_by_status [where cl = demo_cli and a = demo_args and config = "[]" and h = "''10.0.0.1''" and d = None and w = "demo_world (login_raising (Exn KeyboardInterrupt []))", THEN conjunct2, THEN conjunct2, THEN conjunct2, THEN conjunct2, THEN conjunct2, THEN conjunct2, THEN conjunct2, THEN conjunct2, THEN conjunct2, THEN conjunct2, THEN conjunct2, THEN conjunct1] ante8
  have "\<exists>self.
      new_client ''10.0.0.1'' (Some (username_of demo_args [])) (password_of demo_args [])
        (apikey_of demo_args []) (\<not> a_no_ssl demo_args) (a_verify_ssl demo_args)
        (a_timeout demo_args) (a_debug demo_args) = Inr self \<and>
      fst (main ?w2 demo_cli) =
        (case fst (execute_request (fortimanager ?w2) self (a_method demo_args)
                     (a_endpoint demo_args) None (a_query demo_args)) of
           Inr r \<Rightarrow> Inr (exit_status (fst r)) | Inl x \<Rightarrow> Inr 130) \<and>
      (\<forall>x. fst (execute_request (fortimanager ?w2) self (a_method demo_args)
                   (a_endpoint demo_args) None (a_query demo_args)) = Inl x
            \<longrightarrow> (\<exists>why. x = Exn KeyboardInterrupt why))"
    by (rule mp)
  then obtain self2 where
    "new_client ''10.0.0.1'' (Some (username_of demo_args [])) (password_of demo_args [])
              (apikey_of demo_args []) (\<not> a_no_ssl demo_args) (a_verify_ssl demo_args)
              (a_timeout demo_args) (a_debug demo_args) = Inr self2"
    "fst (main ?w2 demo_cli) =
       (case fst (execute_request (fortimanager ?w2) self2 (a_method demo_args)
                    (a_endpoint demo_args) None (a_query demo_args)) of
          Inr r \<Rightarrow> Inr (exit_status (fst r)) | Inl x \<Rightarrow> Inr 130)"
    by (elim exE conjE)
  with nc e2 have r8: "fst (main ?w2 demo_cli) = Inr 130" by simp
  have s1: "(- 1 :: int) < 0" by simp
  have s1': "(0::int) \<le> 0 \<and> (0::int) < 400" by simp
  have s2: "lower ''OK'' = ''ok''" by code_simp
  then have s2': "lower ''OK'' = ''success'' \<or> lower ''OK'' = ''ok''" by (rule disjI2)
  have s3: "lower ''failed'' \<noteq> ''success'' \<and> lower ''failed'' \<noteq> ''ok''" by code_simp
  from exit_code_by_status [where n = "- 1", THEN conjunct2, THEN conjunct2, THEN conjunct2, THEN conjunct2, THEN conjunct2, THEN conjunct2, THEN conjunct2, THEN conjunct2, THEN conjunct2, THEN conjunct2, THEN conjunct2, THEN conjunct2, THEN conjunct1] s1
  have r9: "exit_status (JInt (- 1)) = 1" by (rule mp)
  from exit_code_by_status [where n = 0, THEN conjunct2, THEN conjunct2, THEN conjunct2, THEN conjunct2, THEN conjunct2, THEN conjunct2, THEN conjunct2, THEN conjunct2, THEN conjunct2, THEN conjunct2, THEN conjunct2, THEN conjunct2, THEN conjunct2, THEN conjunct2, THEN conjunct1] s1'
  have r10: "exit_status (JInt 0) = 0" by (rule mp)
  from exit_code_by_status [where s = "''OK''", THEN conjunct2, THEN conjunct2, THEN conjunct2, THEN conjunct2, THEN conjunct2, THEN conjunct2, THEN conjunct2, THEN conjunct2, THEN conjunct2, THEN conjunct2, THEN conjunct2, THEN conjunct2, THEN conjunct2, THEN conjunct2, THEN conjunct2, THEN conjunct1] s2'
  have r11: "exit_status (JStr ''OK'') = 0" by (rule mp)
  from exit_code_by_status [where s = "''failed''", THEN conjunct2, THEN conjunct2, THEN conjunct2, THEN conjunct2, THEN conjunct2, THEN conjunct2, THEN conjunct2, THEN conjunct2, THEN conjunct2, THEN conjunct2, THEN conjunct2, THEN conjunct2, THEN conjunct2, THEN conjunct2, THEN conjunct2, THEN conjunct2] s3
  have r12: "exit_status (JStr ''failed'') = 1" by (rule mp)
  have g1: "config_read ?w1 demo_args [] \<and> host_of demo_args [] = Some ''10.0.0.1'' \<and>
            data_read ?w1 demo_args None" using g [of ?w1] by simp
  show ?thesis
    by (intro conjI m1 [THEN conjunct1] m1 [THEN conjunct2] r1 m2 r2 p0 p1 l1 r3 p2
          h2 [THEN conjunct1] h2 [THEN conjunct2] r4 p3 h3 [THEN conjunct2, THEN conjunct1]
          h3 [THEN conjunct2, THEN conjunct2] r5 p4
          h4 [THEN conjunct2, THEN conjunct2, THEN conjunct2] r6
          g1 [THEN conjunct1] g1 [THEN conjunct2, THEN conjunct1] g'
          g1 [THEN conjunct2, THEN conjunct2] big r7 r8 s1 r9 s1' [THEN conjunct1]
          s1' [THEN conjunct2] r10 s2 r11 s3 [THEN conjunct1] s3 [THEN conjunct2] r12)
qed

text \<open>
  Claim C9 as stated fails: the verb \<open>foo\<close> is a validation error, and the process
  ends with status 2, not 1.
\<close>

theorem exit_code_by_status_counterexample:
  "''foo'' \<notin> set method_choices \<and>
   main (demo_world (answering (JInt 0) JNull)) (demo_cli\<lparr>c_method := Some ''foo''\<rparr>)
     = (Inr 2, []) \<and>
   fst (main (demo_world (answering (JInt 0) JNull)) (demo_cli\<lparr>c_method := Some ''foo''\<rparr>))
     \<noteq> Inr 1"
  by code_simp

end
